theory Spec2Isabelle
  imports Complex_Main "HOL-Library.AList"
begin

section \<open>JavaScript values\<close>

text \<open>
  A JavaScript number other than NaN: a finite value or one of the two infinities.
  \<open>JSON.parse\<close> yields no NaN (an overflowing literal such as \<open>1e999\<close> yields
  Infinity), so the values read from a request body or from the generator's reply carry
  an \<open>xnum\<close>. Arithmetic that can yield NaN returns \<open>xnum option\<close>, \<open>None\<close> being NaN.
  Finite values are exact rationals.
\<close>

datatype xnum = NInf | Fin rat | PInf

text \<open>JavaScript's \<open><\<close> and \<open><=\<close> on two numbers that are not NaN.\<close>

fun xlt :: "xnum \<Rightarrow> xnum \<Rightarrow> bool" where
  "xlt NInf NInf = False"
| "xlt NInf (Fin b) = True"
| "xlt NInf PInf = True"
| "xlt (Fin a) NInf = False"
| "xlt (Fin a) (Fin b) = (a < b)"
| "xlt (Fin a) PInf = True"
| "xlt PInf b = False"

definition xle :: "xnum \<Rightarrow> xnum \<Rightarrow> bool" where
  "xle a b = (a = b \<or> xlt a b)"

text \<open>\<open>c - 1\<close>: an infinity stays what it is.\<close>

fun xsub1 :: "xnum \<Rightarrow> xnum" where
  "xsub1 NInf = NInf"
| "xsub1 (Fin a) = Fin (a - 1)"
| "xsub1 PInf = PInf"

text \<open>
  The values a parsed JSON text is made of, and \<open>undefined\<close>, which a read of a missing
  property or of an index out of range gives. An object is the list of its properties,
  in insertion order.
\<close>

datatype jsval =
    JUndef
  | JNull
  | JBool bool
  | JNum xnum
  | JStr string
  | JArr "jsval list"
  | JObj "(string \<times> jsval) list"

type_synonym jsobj = "(string \<times> jsval) list"

text \<open>\<open>obj.key\<close>: the property's value, \<open>undefined\<close> when the object has none.\<close>

definition getProp :: "jsobj \<Rightarrow> string \<Rightarrow> jsval" where
  "getProp obj k = (case map_of obj k of None \<Rightarrow> JUndef | Some v \<Rightarrow> v)"

text \<open>\<open>xs[i]\<close>: \<open>undefined\<close> out of range.\<close>

definition idx :: "jsval list \<Rightarrow> nat \<Rightarrow> jsval" where
  "idx xs i = (if i < length xs then xs ! i else JUndef)"

definition jnum :: "nat \<Rightarrow> jsval" where
  "jnum n = JNum (Fin (of_nat n))"

section \<open>Quiz generation (the generate-quiz route)\<close>

datatype error =
    MissingApiKey
  | UpstreamThrow
  | GroqApiError int string
  | NoContentReceived
  | ParseFailed
  | IncorrectQuestionsArray
  | IncorrectOptionsArray
  | IncorrectCorrectAnswersArray
  | IncorrectExplanationsArray
  | NotFourOptions nat
  | InvalidCorrectAnswerIndex nat jsval
  | TypeError

text \<open>
  What the route does besides returning: a call of \<open>logOperation\<close> (operation, data,
  error; the time stamp is left out) and a call of the generative model (the \<open>fetch\<close>
  of the Groq completions endpoint). A run yields its events in order.
\<close>

datatype event = Log string jsobj "error option" | Fetch

text \<open>
  The generator's reply, as far as the route looks at it: \<open>fetch\<close> or the decoding of
  its body throws; the status is not ok (status, status text, body text); the reply holds
  no content; or it holds the content \<open>s\<close>, and \<open>p\<close> is what
  \<open>JSON.parse(content.match(/\{[\s\S]*\}/)[0])\<close> gives for it (\<open>None\<close> when there is no
  match or the parse throws). The matched text starts with a brace, so a parse that
  succeeds gives an object.
\<close>

datatype groq_reply =
    Throws
  | NotOk int string string
  | NoContent
  | Content string "jsobj option"

text \<open>
  \<open>!v || !Array.isArray(v) || v.length !== questionCount\<close> is false exactly when \<open>v\<close>
  is an array and \<open>questionCount\<close> is the number that is its length (\<open>!==\<close> is strict:
  no other type of \<open>questionCount\<close> compares equal to a length).
\<close>

definition arrayOfCount :: "jsval \<Rightarrow> jsval \<Rightarrow> jsval list option" where
  "arrayOfCount v questionCount =
     (case v of
        JArr xs \<Rightarrow> if jnum (length xs) = questionCount then Some xs else None
      | _ \<Rightarrow> None)"

definition hasFourOptions :: "jsval \<Rightarrow> bool" where
  "hasFourOptions v = (case v of JArr row \<Rightarrow> length row = 4 | _ \<Rightarrow> False)"

text \<open>
  The repair of one numeric answer index \<open>c\<close> of question \<open>i + 1\<close>: the new
  value and the log entries written.
\<close>

definition adjustAnswer :: "nat \<Rightarrow> xnum \<Rightarrow> xnum \<times> event list" where
  "adjustAnswer i c =
     (if xle (Fin 1) c \<and> xle c (Fin 4) then
        (xsub1 c,
         [Log ''API: Converting 1-based to 0-based index''
            [(''question'', jnum (i + 1)), (''originalIndex'', JNum c),
             (''adjustedIndex'', JNum (xsub1 c))] None])
      else if xlt (Fin 3) c then
        (Fin 3,
         [Log ''API: Clamping out-of-bounds answer index''
            [(''question'', jnum (i + 1)), (''originalIndex'', JNum c),
             (''clampedIndex'', JNum (Fin 3))] None])
      else if xlt c (Fin 0) then
        (Fin 0,
         [Log ''API: Clamping negative answer index''
            [(''question'', jnum (i + 1)), (''originalIndex'', JNum c),
             (''clampedIndex'', JNum (Fin 0))] None])
      else (c, []))"

text \<open>
  The loop over the questions, from index \<open>i\<close> up to \<open>n\<close>: the options of each
  question are checked, its answer index is repaired in place when it is a number, and the
  final validation throws on an index that is no number or is outside 0..3. The array
  \<open>correct_answers\<close> is written only where a repair changed the entry.
\<close>

function validateAnswers ::
  "nat \<Rightarrow> nat \<Rightarrow> jsval list \<Rightarrow> jsval list \<Rightarrow> event list
     \<Rightarrow> event list \<times> (error + jsval list)" where
  "validateAnswers i n options correct_answers lg =
     (if i < n then
        (if \<not> hasFourOptions (idx options i) then (lg, Inl (NotFourOptions (i + 1)))
         else
           (case idx correct_answers i of
              JNum c \<Rightarrow>
                (let (c', es) = adjustAnswer i c;
                     answers' = (if es = [] then correct_answers
                                 else correct_answers[i := JNum c'])
                 in if xlt c' (Fin 0) \<or> xlt (Fin 3) c'
                    then (lg @ es, Inl (InvalidCorrectAnswerIndex (i + 1) (JNum c')))
                    else validateAnswers (i + 1) n options answers' (lg @ es))
            | v \<Rightarrow> (lg, Inl (InvalidCorrectAnswerIndex (i + 1) v))))
      else (lg, Inr correct_answers))"
  by pat_completeness auto
termination
  by (relation "measure (\<lambda>(i, n, options, correct_answers, lg). n - i)") auto

declare validateAnswers.simps [simp del]

text \<open>
  The validation of the parsed quiz: the four arrays have \<open>questionCount\<close> entries
  each, then the loop, then the closing log entry. The quiz returned is the parsed object
  with its \<open>correct_answers\<close> array as the loop left it.
\<close>

definition validateQuiz :: "jsobj \<Rightarrow> jsval \<Rightarrow> event list \<times> (error + jsobj)" where
  "validateQuiz quiz questionCount =
     (case arrayOfCount (getProp quiz ''questions'') questionCount of
        None \<Rightarrow> ([], Inl IncorrectQuestionsArray)
      | Some questions \<Rightarrow>
     (case arrayOfCount (getProp quiz ''options'') questionCount of
        None \<Rightarrow> ([], Inl IncorrectOptionsArray)
      | Some options \<Rightarrow>
     (case arrayOfCount (getProp quiz ''correct_answers'') questionCount of
        None \<Rightarrow> ([], Inl IncorrectCorrectAnswersArray)
      | Some correct_answers \<Rightarrow>
     (case arrayOfCount (getProp quiz ''explanations'') questionCount of
        None \<Rightarrow> ([], Inl IncorrectExplanationsArray)
      | Some explanations \<Rightarrow>
     (case validateAnswers 0 (length questions) options correct_answers [] of
        (lg, Inl e) \<Rightarrow> (lg, Inl e)
      | (lg, Inr answers) \<Rightarrow>
          (lg @ [Log ''API: Quiz validation and correction completed''
                   [(''questionsCount'', jnum (length questions)),
                    (''correctedAnswers'', JArr answers),
                    (''topic'', getProp quiz ''topic''),
                    (''difficulty'', getProp quiz ''difficulty'')] None],
           Inr (AList.update ''correct_answers'' (JArr answers) quiz)))))))"

text \<open>What the reply gives before the validation: an exception or the parsed quiz.\<close>

definition readReply :: "groq_reply \<Rightarrow> event list \<times> (error + jsobj)" where
  "readReply reply =
     (case reply of
        Throws \<Rightarrow> ([], Inl UpstreamThrow)
      | NotOk status statusText errorText \<Rightarrow>
          ([Log ''API: Groq API error''
              [(''status'', JNum (Fin (of_int status))), (''errorText'', JStr errorText)] None],
           Inl (GroqApiError status statusText))
      | NoContent \<Rightarrow> ([], Inl NoContentReceived)
      | Content s p \<Rightarrow>
          if s = [] then ([], Inl NoContentReceived)
          else
            (case p of
               None \<Rightarrow>
                 ([Log ''API: Groq API response received'' [(''contentLength'', jnum (length s))] None,
                   Log ''API: Error parsing JSON from Groq'' [(''content'', JStr s)] None],
                  Inl ParseFailed)
             | Some quiz \<Rightarrow>
                 ([Log ''API: Groq API response received'' [(''contentLength'', jnum (length s))] None],
                  Inr quiz)))"

text \<open>
  \<open>generateQuizWithGroq\<close>: without an API key it throws before anything else; otherwise
  it logs the call, calls the model, reads the reply and validates the quiz. Whatever is
  thrown after the call was logged is logged again by the \<open>catch\<close> and thrown on.
\<close>

definition generateQuizWithGroq ::
  "string option \<Rightarrow> groq_reply \<Rightarrow> string \<Rightarrow> string \<Rightarrow> jsval
     \<Rightarrow> event list \<times> (error + jsobj)" where
  "generateQuizWithGroq GROQ_API_KEY reply topic difficulty questionCount =
     (if GROQ_API_KEY = None \<or> GROQ_API_KEY = Some [] then ([], Inl MissingApiKey)
      else
        (let start = [Log ''API: Calling Groq API for quiz generation''
                        [(''topic'', JStr topic), (''difficulty'', JStr difficulty),
                         (''questionCount'', questionCount)] None,
                      Fetch];
             (lg, r) = (case readReply reply of
                          (lg1, Inl e) \<Rightarrow> (lg1, Inl e)
                        | (lg1, Inr quiz) \<Rightarrow>
                            (case validateQuiz quiz questionCount of
                               (lg2, r2) \<Rightarrow> (lg1 @ lg2, r2)))
         in case r of
              Inl e \<Rightarrow> (start @ lg @ [Log ''API: Error in generateQuizWithGroq'' [] (Some e)], Inl e)
            | Inr quiz \<Rightarrow> (start @ lg, Inr quiz)))"

section \<open>The coercions of the request validation\<close>

text \<open>
  A \<open>char\<close> stands for a UTF-16 code unit below 256. The white space and line
  terminators that \<open>trim\<close> and the conversion of a string to a number skip, in that
  range: TAB, LF, VT, FF, CR, SP and NBSP.
\<close>

definition isWhiteSpace :: "char \<Rightarrow> bool" where
  "isWhiteSpace c = ((of_char c :: nat) \<in> {9, 10, 11, 12, 13, 32, 160})"

definition trimStart :: "string \<Rightarrow> string" where
  "trimStart s = dropWhile isWhiteSpace s"

definition trim :: "string \<Rightarrow> string" where
  "trim s = rev (dropWhile isWhiteSpace (rev (dropWhile isWhiteSpace s)))"

text \<open>\<open>!v\<close> is \<open>\<not> truthy v\<close>.\<close>

definition truthy :: "jsval \<Rightarrow> bool" where
  "truthy v =
     (case v of
        JUndef \<Rightarrow> False
      | JNull \<Rightarrow> False
      | JBool b \<Rightarrow> b
      | JNum n \<Rightarrow> n \<noteq> Fin 0
      | JStr s \<Rightarrow> s \<noteq> []
      | JArr xs \<Rightarrow> True
      | JObj ps \<Rightarrow> True)"

text \<open>The value of a digit character (decimal or hexadecimal).\<close>

definition digitOf :: "char \<Rightarrow> nat option" where
  "digitOf c =
     (let k = (of_char c :: nat) in
      if 48 \<le> k \<and> k \<le> 57 then Some (k - 48)
      else if 97 \<le> k \<and> k \<le> 102 then Some (k - 87)
      else if 65 \<le> k \<and> k \<le> 70 then Some (k - 55)
      else None)"

definition isDigitIn :: "nat \<Rightarrow> char \<Rightarrow> bool" where
  "isDigitIn b c = (case digitOf c of Some d \<Rightarrow> d < b | None \<Rightarrow> False)"

definition digitsValue :: "nat \<Rightarrow> string \<Rightarrow> nat" where
  "digitsValue b ds =
     foldl (\<lambda>a c. b * a + (case digitOf c of Some d \<Rightarrow> d | None \<Rightarrow> 0)) 0 ds"

fun xneg :: "xnum \<Rightarrow> xnum" where
  "xneg NInf = PInf"
| "xneg (Fin a) = Fin (- a)"
| "xneg PInf = NInf"

text \<open>
  The conversion of a string to a number (ECMAScript's StringToNumber): white space is
  trimmed, the empty string is 0, then a binary, octal or hexadecimal integer literal, or
  a decimal literal with an optional sign, fraction and exponent, or a signed
  \<open>Infinity\<close>; anything else is NaN (\<open>None\<close>). The value is the literal's mathematical
  value: the rounding to a binary64 is not modelled.
\<close>

definition exponentPart :: "string \<Rightarrow> int option" where
  "exponentPart s =
     (case s of
        [] \<Rightarrow> Some 0
      | c # r \<Rightarrow>
          if c = CHR ''e'' \<or> c = CHR ''E'' then
            (case r of
               [] \<Rightarrow> None
             | d # r' \<Rightarrow>
                 if d = CHR ''+'' then
                   (if r' \<noteq> [] \<and> list_all (isDigitIn 10) r'
                    then Some (int (digitsValue 10 r')) else None)
                 else if d = CHR ''-'' then
                   (if r' \<noteq> [] \<and> list_all (isDigitIn 10) r'
                    then Some (- int (digitsValue 10 r')) else None)
                 else if list_all (isDigitIn 10) r
                   then Some (int (digitsValue 10 r)) else None)
          else None)"

definition unsignedDecimal :: "string \<Rightarrow> xnum option" where
  "unsignedDecimal s =
     (if s = ''Infinity'' then Some PInf
      else
        (let ip = takeWhile (isDigitIn 10) s;
             r1 = dropWhile (isDigitIn 10) s;
             fp = (case r1 of
                     [] \<Rightarrow> []
                   | c # r \<Rightarrow> if c = CHR ''.'' then takeWhile (isDigitIn 10) r else []);
             r2 = (case r1 of
                     [] \<Rightarrow> []
                   | c # r \<Rightarrow> if c = CHR ''.'' then dropWhile (isDigitIn 10) r else r1)
         in if ip = [] \<and> fp = [] then None
            else
              (case exponentPart r2 of
                 None \<Rightarrow> None
               | Some e \<Rightarrow>
                   (let m = (of_nat (digitsValue 10 ip) :: rat)
                            + of_nat (digitsValue 10 fp) / 10 ^ length fp
                    in Some (Fin (if 0 \<le> e then m * 10 ^ nat e else m / 10 ^ nat (- e)))))))"

definition nonDecimal :: "nat \<Rightarrow> string \<Rightarrow> xnum option" where
  "nonDecimal b ds =
     (if ds \<noteq> [] \<and> list_all (isDigitIn b) ds then Some (Fin (of_nat (digitsValue b ds)))
      else None)"

definition StringToNumber :: "string \<Rightarrow> xnum option" where
  "StringToNumber s =
     (let t = trim s in
      case t of
        [] \<Rightarrow> Some (Fin 0)
      | c # r \<Rightarrow>
          if c = CHR ''+'' then unsignedDecimal r
          else if c = CHR ''-'' then map_option xneg (unsignedDecimal r)
          else if c = CHR ''0'' \<and> r \<noteq> [] \<and> (hd r = CHR ''x'' \<or> hd r = CHR ''X'')
            then nonDecimal 16 (tl r)
          else if c = CHR ''0'' \<and> r \<noteq> [] \<and> (hd r = CHR ''o'' \<or> hd r = CHR ''O'')
            then nonDecimal 8 (tl r)
          else if c = CHR ''0'' \<and> r \<noteq> [] \<and> (hd r = CHR ''b'' \<or> hd r = CHR ''B'')
            then nonDecimal 2 (tl r)
          else unsignedDecimal t)"

text \<open>
  The conversion of a value to a number, as \<open><\<close> and \<open>>\<close> against a number do it.
  An array or object is first turned into a string: an array into its elements' strings
  joined by commas (\<open>null\<close> and \<open>undefined\<close> giving the empty string), an object into
  \<open>[object Object]\<close>. A parsed object holds no function, so an object with a property
  of its own named \<open>toString\<close> has no method to call and the conversion throws a
  TypeError, also when such an object stands inside the array.
\<close>

datatype coerced = Thrown | NaN | Val xnum

fun throwsOnToString :: "jsval \<Rightarrow> bool" where
  "throwsOnToString (JObj ps) = (''toString'' \<in> fst ` set ps)"
| "throwsOnToString (JArr xs) = (\<exists>x \<in> set xs. throwsOnToString x)"
| "throwsOnToString v = False"

definition ofParsed :: "xnum option \<Rightarrow> coerced" where
  "ofParsed p = (case p of None \<Rightarrow> NaN | Some n \<Rightarrow> Val n)"

text \<open>
  An array of two or more elements joins to a string with a comma, which is no numeric
  literal; the string of a single number converts back to that number.
\<close>

fun arrayToNumber :: "jsval list \<Rightarrow> coerced" where
  "arrayToNumber [] = Val (Fin 0)"
| "arrayToNumber [JUndef] = Val (Fin 0)"
| "arrayToNumber [JNull] = Val (Fin 0)"
| "arrayToNumber [JBool b] = NaN"
| "arrayToNumber [JNum n] = Val n"
| "arrayToNumber [JStr s] = ofParsed (StringToNumber s)"
| "arrayToNumber [JArr ys] = arrayToNumber ys"
| "arrayToNumber [JObj ps] = NaN"
| "arrayToNumber (x # y # r) = NaN"

definition ToNumber :: "jsval \<Rightarrow> coerced" where
  "ToNumber v =
     (case v of
        JUndef \<Rightarrow> NaN
      | JNull \<Rightarrow> Val (Fin 0)
      | JBool b \<Rightarrow> Val (Fin (if b then 1 else 0))
      | JNum n \<Rightarrow> Val n
      | JStr s \<Rightarrow> ofParsed (StringToNumber s)
      | JArr xs \<Rightarrow> if throwsOnToString (JArr xs) then Thrown else arrayToNumber xs
      | JObj ps \<Rightarrow> if throwsOnToString (JObj ps) then Thrown else NaN)"

section \<open>The route handler\<close>

record http_response =
  status :: nat
  body :: jsval

definition errorResponse :: "string \<Rightarrow> nat \<Rightarrow> http_response" where
  "errorResponse msg st = \<lparr>status = st, body = JObj [(''error'', JStr msg)]\<rparr>"

text \<open>The \<open>catch\<close> of the handler: the error is logged and answered with status 500.\<close>

definition caught :: "event list \<Rightarrow> error \<Rightarrow> event list \<times> http_response" where
  "caught lg e =
     (lg @ [Log ''API: Error generating quiz'' [] (Some e)],
      errorResponse ''Failed to generate quiz. Please try again.'' 500)"

text \<open>A property of the destructured body: \<open>undefined\<close> when the body is no object.\<close>

definition bodyField :: "jsval \<Rightarrow> string \<Rightarrow> jsval" where
  "bodyField b k = (case b of JObj ps \<Rightarrow> getProp ps k | _ \<Rightarrow> JUndef)"

text \<open>
  \<open>!questionCount || questionCount < 1 || questionCount > 15\<close>: the request is
  rejected, let through, or the comparison throws. A comparison with NaN is false.
\<close>

datatype check = Reject | Pass | Raise

definition countCheck :: "jsval \<Rightarrow> check" where
  "countCheck questionCount =
     (if \<not> truthy questionCount then Reject
      else
        (case ToNumber questionCount of
           Thrown \<Rightarrow> Raise
         | NaN \<Rightarrow> Pass
         | Val n \<Rightarrow> if xlt n (Fin 1) \<or> xlt (Fin 15) n then Reject else Pass))"

text \<open>\<open>['easy', 'medium', 'hard'].includes(difficulty)\<close>, and the string it then is.\<close>

definition knownDifficulty :: "jsval \<Rightarrow> string option" where
  "knownDifficulty difficulty =
     (case difficulty of
        JStr d \<Rightarrow> if d \<in> {''easy'', ''medium'', ''hard''} then Some d else None
      | _ \<Rightarrow> None)"

text \<open>
  \<open>POST\<close>: \<open>request_json\<close> is what \<open>request.json()\<close> resolves to (\<open>None\<close> when
  it throws). A body \<open>null\<close> cannot be destructured; a truthy topic that is no string has
  no method \<open>trim\<close>: both throw a TypeError, which the \<open>catch\<close> answers.
\<close>

definition POST ::
  "string option \<Rightarrow> groq_reply \<Rightarrow> jsval option \<Rightarrow> event list \<times> http_response" where
  "POST GROQ_API_KEY reply request_json =
     (case request_json of
        None \<Rightarrow> caught [] TypeError
      | Some JNull \<Rightarrow> caught [] TypeError
      | Some b \<Rightarrow>
        (let topic = bodyField b ''topic'';
             difficulty = bodyField b ''difficulty'';
             questionCount = bodyField b ''questionCount'';
             lg = [Log ''API: Quiz generation request received''
                     [(''topic'', topic), (''difficulty'', difficulty),
                      (''questionCount'', questionCount)] None]
         in if \<not> truthy topic then (lg, errorResponse ''Topic is required'' 400)
            else
              (case topic of
                 JStr t \<Rightarrow>
                   if trim t = [] then (lg, errorResponse ''Topic is required'' 400)
                   else
                     (case knownDifficulty difficulty of
                        None \<Rightarrow> (lg, errorResponse ''Invalid difficulty level'' 400)
                      | Some d \<Rightarrow>
                     (case countCheck questionCount of
                        Reject \<Rightarrow>
                          (lg, errorResponse ''Question count must be between 1 and 15'' 400)
                      | Raise \<Rightarrow> caught lg TypeError
                      | Pass \<Rightarrow>
                     (case generateQuizWithGroq GROQ_API_KEY reply (trim t) d questionCount of
                        (lg2, Inl e) \<Rightarrow> caught (lg @ lg2) e
                      | (lg2, Inr quiz) \<Rightarrow>
                          (lg @ lg2 @
                           [Log ''API: Quiz generated successfully''
                              [(''topic'', getProp quiz ''topic''),
                               (''difficulty'', getProp quiz ''difficulty''),
                               (''questionCount'',
                                  (case getProp quiz ''questions'' of
                                     JArr qs \<Rightarrow> jnum (length qs)
                                   | _ \<Rightarrow> JUndef))] None],
                           \<lparr>status = 200, body = JObj quiz\<rparr>))))
               | _ \<Rightarrow> caught lg TypeError)))"

section \<open>Quiz submission (the quiz page)\<close>

text \<open>
  \<open>parseInt(s)\<close> with no radix: leading white space and a sign are skipped, a prefix
  \<open>0x\<close> selects radix 16, and the longest run of digits is read; NaN (\<open>None\<close>) when
  there is none.
\<close>

definition parseInt :: "string \<Rightarrow> int option" where
  "parseInt s =
     (let t = trimStart s;
          neg = (t \<noteq> [] \<and> hd t = CHR ''-'');
          u = (if t \<noteq> [] \<and> (hd t = CHR ''+'' \<or> hd t = CHR ''-'') then tl t else t);
          hex = (2 \<le> length u \<and> hd u = CHR ''0'' \<and> (u ! 1 = CHR ''x'' \<or> u ! 1 = CHR ''X''));
          R = (if hex then 16 else 10);
          Z = takeWhile (isDigitIn R) (if hex then drop 2 u else u)
      in if Z = [] then None
         else Some ((if neg then - 1 else 1) * int (digitsValue R Z)))"

text \<open>\<open>parseInt(answer) === correctAnswers[index]\<close>: NaN equals nothing.\<close>

definition answerMatches :: "string \<Rightarrow> jsval \<Rightarrow> bool" where
  "answerMatches answer correct =
     (case parseInt answer of None \<Rightarrow> False | Some k \<Rightarrow> correct = JNum (Fin (of_int k)))"

text \<open>
  \<open>optionIndex.toString()\<close> for the index of an option, a whole number that is not
  negative: its decimal digits. (An index is far below \<open>2^53\<close>, up to where every whole
  number is a binary64 and is printed and read back digit for digit.)
\<close>

function toStringIndex :: "nat \<Rightarrow> string" where
  "toStringIndex n =
     (if n < 10 then [char_of (48 + n)]
      else toStringIndex (n div 10) @ [char_of (48 + n mod 10)])"
  by pat_completeness auto
termination
  by (relation "measure (\<lambda>n. n)") auto

declare toStringIndex.simps [simp del]

text \<open>
  The entry of \<open>userAnswers\<close> for one question: the empty string that
  \<open>new Array(n).fill('')\<close> put there while no option is selected, or the text that
  \<open>handleAnswerSelect\<close> stores for the selected option, \<open>answerIndex.toString()\<close>.
\<close>

definition answerText :: "nat option \<Rightarrow> string" where
  "answerText selected =
     (case selected of None \<Rightarrow> [] | Some answerIndex \<Rightarrow> toStringIndex answerIndex)"

text \<open>
  The \<open>forEach\<close> over the user's answers, from position \<open>index\<close> on, counting into
  \<open>correctCount\<close>.
\<close>

fun countCorrect :: "nat \<Rightarrow> string list \<Rightarrow> jsval list \<Rightarrow> nat \<Rightarrow> nat" where
  "countCorrect index [] correctAnswers correctCount = correctCount"
| "countCorrect index (answer # rest) correctAnswers correctCount =
     countCorrect (index + 1) rest correctAnswers
       (if answerMatches answer (idx correctAnswers index) then correctCount + 1
        else correctCount)"

text \<open>
  \<open>(correctCount / total) * 100\<close>: with no question the quotient is NaN (\<open>None\<close>) or
  Infinity. Quotient and product are exact.
\<close>

definition quizScore :: "nat \<Rightarrow> nat \<Rightarrow> xnum option" where
  "quizScore correctCount totalQuestions =
     (if totalQuestions = 0 then (if correctCount = 0 then None else Some PInf)
      else Some (Fin (of_nat correctCount / of_nat totalQuestions * 100)))"

text \<open>
  \<open>Math.floor(Math.random() * (90 - 60 + 1)) + 60\<close>, for the value \<open>random\<close> that
  \<open>Math.random()\<close> returns (at least 0, below 1).
\<close>

definition stressScore :: "rat \<Rightarrow> int" where
  "stressScore random = \<lfloor>random * (90 - 60 + 1)\<rfloor> + 60"

text \<open>The quiz the page holds: the arrays of the quiz that the route returned.\<close>

record quiz_data =
  qd_questions :: "jsval list"
  qd_options :: "jsval list"
  qd_correct_answers :: "jsval list option"
  qd_explanations :: "jsval list option"

text \<open>The row inserted into the table \<open>quizzes\<close>, and the results the page shows.\<close>

record quiz_row =
  row_session_id :: string
  row_quiz_index :: nat
  row_questions :: "jsval list"
  row_options :: "jsval list"
  row_correct_answers :: "jsval list"
  row_user_answers :: "int option list"
  row_quiz_score :: "xnum option"
  row_stress_score :: int
  row_difficulty :: string
  row_explanations :: "jsval list"

record quiz_results =
  res_score :: "xnum option"
  res_correctAnswers :: nat
  res_totalQuestions :: nat
  res_stressScore :: int
  res_questions :: "jsval list"
  res_userAnswers :: "string list"
  res_correctAnswerIndices :: "jsval list"
  res_explanations :: "jsval list"

text \<open>
  \<open>handleSubmitQuiz\<close>: nothing happens without a session id or a quiz; otherwise the
  score is computed, the stress score is drawn, the row is sent to the database (whose
  failure is only logged) and the results are shown.
\<close>

definition handleSubmitQuiz ::
  "string option \<Rightarrow> quiz_data option \<Rightarrow> string list \<Rightarrow> nat \<Rightarrow> string \<Rightarrow> rat
     \<Rightarrow> (quiz_row \<times> quiz_results) option" where
  "handleSubmitQuiz sessionId quizData userAnswers quizCount difficulty random =
     (case sessionId of
        None \<Rightarrow> None
      | Some sid \<Rightarrow>
          if sid = [] then None
          else
            (case quizData of
               None \<Rightarrow> None
             | Some q \<Rightarrow>
                 (let correctAnswers = (case qd_correct_answers q of None \<Rightarrow> [] | Some cs \<Rightarrow> cs);
                      correctCount = countCorrect 0 userAnswers correctAnswers 0;
                      score = quizScore correctCount (length (qd_questions q));
                      stress = stressScore random;
                      expl = (case qd_explanations q of None \<Rightarrow> [] | Some es \<Rightarrow> es)
                  in Some
                       (\<lparr>row_session_id = sid, row_quiz_index = quizCount,
                         row_questions = qd_questions q, row_options = qd_options q,
                         row_correct_answers = correctAnswers,
                         row_user_answers = map parseInt userAnswers,
                         row_quiz_score = score, row_stress_score = stress,
                         row_difficulty = difficulty, row_explanations = expl\<rparr>,
                        \<lparr>res_score = score, res_correctAnswers = correctCount,
                         res_totalQuestions = length (qd_questions q),
                         res_stressScore = stress, res_questions = qd_questions q,
                         res_userAnswers = userAnswers,
                         res_correctAnswerIndices = correctAnswers,
                         res_explanations = expl\<rparr>))))"

section \<open>The chat store\<close>

datatype role = User | Assistant

text \<open>
  A time stamp is a \<open>Date\<close>: its time in milliseconds, or \<open>None\<close> for an invalid
  date, whose \<open>getTime()\<close> is NaN.
\<close>

record ChatMessage =
  msg_id :: string
  msg_type :: role
  content :: string
  timestamp :: "int option"
  audioUrl :: "string option"
  sentiment :: "string option"
  query_id :: "string option"
  main_response :: "string option"
  simplified_response :: "string option"
  detailed_response :: "string option"
  tinyllama_response :: "string option"
  image_data :: "jsval option"

record ChatSession =
  session_id :: string
  title :: string
  messages :: "ChatMessage list"
  createdAt :: "int option"

record ChatState =
  currentSession :: "ChatSession option"
  sessions :: "ChatSession list"
  language :: string
  isVoiceSidebarOpen :: bool
  isImageSidebarOpen :: bool
  isSidebarMinimized :: bool
  currentPlayingAudio :: "string option"
  isCreatingSession :: bool

text \<open>The truthiness of an optional string, and \<open>a || b\<close> on two of them.\<close>

definition present :: "string option \<Rightarrow> bool" where
  "present a = (case a of None \<Rightarrow> False | Some s \<Rightarrow> s \<noteq> [])"

definition orElse :: "string option \<Rightarrow> string option \<Rightarrow> string option" where
  "orElse a b = (if present a then a else b)"

text \<open>
  \<open>Math.abs(a.getTime() - b.getTime()) < 1000\<close>: false when either date is invalid.
\<close>

definition within1000 :: "int option \<Rightarrow> int option \<Rightarrow> bool" where
  "within1000 a b =
     (case a of
        None \<Rightarrow> False
      | Some x \<Rightarrow> (case b of None \<Rightarrow> False | Some y \<Rightarrow> \<bar>x - y\<bar> < 1000))"

definition isDuplicateOf :: "ChatMessage \<Rightarrow> ChatMessage \<Rightarrow> bool" where
  "isDuplicateOf message msg =
     (msg_id msg = msg_id message \<or>
      (content msg = content message \<and> msg_type msg = msg_type message \<and>
       within1000 (timestamp msg) (timestamp message)))"

text \<open>
  \<open>addMessage\<close>, up to the start of the asynchronous exchange with the backend: the new
  state, and whether that exchange is started (a user message with text and no query id).
\<close>

definition addMessage :: "ChatMessage \<Rightarrow> ChatState \<Rightarrow> ChatState \<times> bool" where
  "addMessage message st =
     (case currentSession st of
        None \<Rightarrow> (st, False)
      | Some cur \<Rightarrow>
          if list_ex (isDuplicateOf message) (messages cur) then (st, False)
          else
            (let updatedSession = cur\<lparr>messages := messages cur @ [message]\<rparr>
             in (st\<lparr>currentSession := Some updatedSession,
                    sessions := map (\<lambda>s. if session_id s = session_id cur
                                          then updatedSession else s) (sessions st)\<rparr>,
                 msg_type message = User \<and> trim (content message) \<noteq> [] \<and>
                 \<not> present (query_id message))))"

text \<open>
  \<open>cleanMarkdown\<close>: every run of three or more line feeds becomes two, and the text is
  trimmed.
\<close>

function squeezeNewlines :: "string \<Rightarrow> string" where
  "squeezeNewlines [] = []"
| "squeezeNewlines (c # s) =
     (if c = CHR 0x0A then
        (let run = takeWhile (\<lambda>d. d = CHR 0x0A) s;
             rest = dropWhile (\<lambda>d. d = CHR 0x0A) s
         in (if 2 \<le> length run then [CHR 0x0A, CHR 0x0A] else c # run) @ squeezeNewlines rest)
      else c # squeezeNewlines s)"
  by pat_completeness auto
termination
proof (relation "measure length")
  show "wf (measure length)" by simp
next
  fix c :: char and s x xa :: string
  assume "xa = dropWhile (\<lambda>d. d = CHR 0x0A) s"
  then show "(xa, c # s) \<in> measure length"
    using length_dropWhile_le [of "\<lambda>d. d = CHR 0x0A" s] by simp
next
  fix c :: char and s :: string
  show "(s, c # s) \<in> measure length" by simp
qed

definition cleanMarkdown :: "string \<Rightarrow> string" where
  "cleanMarkdown t = (if t = [] then [] else trim (squeezeNewlines t))"

text \<open>The answer of the backend to \<open>askQuestion\<close>, as far as the store reads it.\<close>

record askResponse =
  ar_query_id :: "string option"
  ar_main_response :: "string option"
  ar_simplified_response :: "string option"
  ar_detailed_response :: "string option"
  ar_tinyllama_response :: "string option"
  ar_sentiment_label :: "string option"
  ar_image_data :: "jsval option"

definition cleaned :: "string option \<Rightarrow> string option" where
  "cleaned a = (if present a then map_option cleanMarkdown a else None)"

text \<open>
  The assistant's message built from the answer; \<open>uuid\<close> is what \<open>uuidv4()\<close> returns
  and \<open>now\<close> the time of \<open>new Date()\<close>.
\<close>

definition assistantMessage :: "askResponse \<Rightarrow> string \<Rightarrow> int \<Rightarrow> ChatMessage" where
  "assistantMessage r uuid now =
     \<lparr>msg_id = (case orElse (ar_query_id r) (Some uuid) of None \<Rightarrow> [] | Some i \<Rightarrow> i),
      msg_type = Assistant,
      content = (case orElse (ar_simplified_response r) (ar_main_response r) of
                   None \<Rightarrow> []
                 | Some t \<Rightarrow> cleanMarkdown t),
      timestamp = Some now,
      audioUrl = None,
      sentiment = ar_sentiment_label r,
      query_id = ar_query_id r,
      main_response = Some (case ar_main_response r of None \<Rightarrow> [] | Some t \<Rightarrow> cleanMarkdown t),
      simplified_response = cleaned (ar_simplified_response r),
      detailed_response = cleaned (ar_detailed_response r),
      tinyllama_response = cleaned (ar_tinyllama_response r),
      image_data = ar_image_data r\<rparr>"

text \<open>
  The end of the exchange: an answer with a main response adds the assistant's message.
\<close>

definition receiveAnswer :: "askResponse option \<Rightarrow> string \<Rightarrow> int \<Rightarrow> ChatState \<Rightarrow> ChatState" where
  "receiveAnswer askResponse uuid now st =
     (case askResponse of
        None \<Rightarrow> st
      | Some r \<Rightarrow>
          if present (ar_main_response r) then fst (addMessage (assistantMessage r uuid now) st)
          else st)"

section \<open>The rendering of a chat message\<close>

text \<open>
  \<open>contentToRender\<close> of the component \<open>ChatMessage\<close>, for the toggle's state
  \<open>showDetailed\<close>, which starts as false.
\<close>

definition hasDetailedResponse :: "ChatMessage \<Rightarrow> bool" where
  "hasDetailedResponse message =
     (present (detailed_response message) \<and>
      detailed_response message \<noteq> main_response message \<and>
      detailed_response message \<noteq> simplified_response message)"

definition contentToRender :: "ChatMessage \<Rightarrow> bool \<Rightarrow> string" where
  "contentToRender message showDetailed =
     (let chosen =
        (if msg_type message = Assistant \<and> hasDetailedResponse message then
           (if showDetailed then detailed_response message
            else orElse (main_response message) (simplified_response message))
         else orElse (orElse (main_response message) (simplified_response message))
                (Some (content message)))
      in case chosen of None \<Rightarrow> [] | Some t \<Rightarrow> t)"

section \<open>The voice sidebar\<close>

record timing =
  t_start :: rat
  t_end :: rat
  t_text :: string

record VoiceExplanation =
  ve_text :: string
  ve_timings :: "timing list"
  ve_audioUrl :: string

text \<open>
  What the voice endpoints answer, as far as the sidebar reads it, and how a call of
  \<open>generateVoice\<close> ends: rejected with a message, or resolved with an answer.
\<close>

record voice_response =
  audio_url :: "string option"
  response_error :: "string option"
  tts_timings :: "timing list option"
  timings :: "timing list option"

datatype api_result = Rejected string | Resolved voice_response

text \<open>
  The calls of the backend a run makes: \<open>getAudioByQueryId(query_id, sessionId)\<close> and
  \<open>generateVoice(text, 'en-US', 'en-US-Wavenet-D', sessionId, queryId)\<close>, the synthesis.
\<close>

datatype api_call = GetAudioByQueryId string string | GenerateVoice string string string

record sidebar_state =
  voiceExplanation :: "VoiceExplanation option"
  errorMessage :: "string option"
  isLoading :: bool
  cachedExplanations :: "string \<Rightarrow> VoiceExplanation option"

record location =
  origin :: string
  port :: string

definition startsWith :: "string \<Rightarrow> string \<Rightarrow> bool" where
  "startsWith s p = (take (length p) s = p)"

text \<open>\<open>s.replace(pat, rep)\<close> for a string pattern: the first occurrence is replaced.\<close>

fun replaceFirst :: "string \<Rightarrow> string \<Rightarrow> string \<Rightarrow> string" where
  "replaceFirst pat rep [] = (if pat = [] then rep else [])"
| "replaceFirst pat rep (c # s) =
     (if startsWith (c # s) pat then rep @ drop (length pat) (c # s)
      else c # replaceFirst pat rep s)"

definition convertToBackendURL :: "location \<Rightarrow> string \<Rightarrow> string" where
  "convertToBackendURL loc url =
     (if url \<noteq> [] \<and> startsWith url ''/api/''
      then replaceFirst (CHR '':'' # port loc) '':8000'' (origin loc) @ url
      else url)"

text \<open>\<open>s.split(c)\<close> for a one-character separator.\<close>

fun splitOn :: "char \<Rightarrow> string \<Rightarrow> string list" where
  "splitOn c [] = [[]]"
| "splitOn c (x # xs) =
     (if x = c then [] # splitOn c xs
      else (case splitOn c xs of [] \<Rightarrow> [[x]] | w # ws \<Rightarrow> (x # w) # ws))"

definition sentencesOf :: "string \<Rightarrow> string list" where
  "sentencesOf textToVoice =
     map (\<lambda>sentence. trim sentence @ ''.'')
       (filter (\<lambda>sentence. 0 < length (trim sentence)) (splitOn CHR ''.'' textToVoice))"

text \<open>
  The fallback timings: 50 ms for each character, starting at \<open>startTime\<close>. The sums
  are exact.
\<close>

fun estimateTimings :: "rat \<Rightarrow> string list \<Rightarrow> timing list" where
  "estimateTimings startTime [] = []"
| "estimateTimings startTime (sentence # rest) =
     (let duration = of_nat (length sentence) * (5 / 100)
      in \<lparr>t_start = startTime, t_end = startTime + duration, t_text = sentence\<rparr>
           # estimateTimings (startTime + duration) rest)"

text \<open>The timings of an answer: the backend's when there are any, else the fallback.\<close>

definition chooseTimings :: "voice_response \<Rightarrow> string \<Rightarrow> timing list" where
  "chooseTimings response textToVoice =
     (case tts_timings response of
        Some (t # ts) \<Rightarrow> t # ts
      | _ \<Rightarrow>
         (case timings response of
            Some (t # ts) \<Rightarrow> t # ts
          | _ \<Rightarrow> estimateTimings 0 (sentencesOf textToVoice)))"

definition lastAssistantMessage :: "ChatSession \<Rightarrow> ChatMessage option" where
  "lastAssistantMessage cur = find (\<lambda>msg. msg_type msg = Assistant) (rev (messages cur))"

text \<open>The key of the cache: \<open>query_id || id\<close>.\<close>

definition cacheKey :: "ChatMessage \<Rightarrow> string option" where
  "cacheKey m = orElse (query_id m) (Some (msg_id m))"

definition cachedFor :: "sidebar_state \<Rightarrow> ChatMessage \<Rightarrow> VoiceExplanation option" where
  "cachedFor st m =
     (case cacheKey m of
        None \<Rightarrow> None
      | Some k \<Rightarrow> if k = [] then None else cachedExplanations st k)"

definition includesStr :: "string \<Rightarrow> string \<Rightarrow> bool" where
  "includesStr s sub = list_ex (\<lambda>i. take (length sub) (drop i s) = sub) [0 ..< Suc (length s)]"

text \<open>The \<open>catch\<close>: the message shown for the message of the error thrown.\<close>

definition shownError :: "string \<Rightarrow> string" where
  "shownError msg =
     (if includesStr msg ''400''
        then ''Text is too long or invalid for voice generation. Please try with shorter content.''
      else if includesStr msg ''401''
        then ''Authentication failed. Please refresh the page and try again.''
      else if includesStr msg ''500''
        then ''Voice generation service is temporarily unavailable. Please try again in a moment.''
      else if includesStr msg ''timeout''
        then ''Voice generation timed out. The content might be too long.''
      else ''Voice generation failed: '' @ msg)"

definition failed :: "sidebar_state \<Rightarrow> string \<Rightarrow> sidebar_state" where
  "failed st msg = st\<lparr>errorMessage := Some (shownError msg), isLoading := False\<rparr>"

text \<open>
  What is done with an answer: an error in it or a missing audio URL is thrown; else the
  explanation is built and, when the store's current session still has the id the run
  started with, shown and cached under the message's key; otherwise it is discarded.
\<close>

definition deliver ::
  "location \<Rightarrow> string \<Rightarrow> string option \<Rightarrow> ChatMessage \<Rightarrow> string \<Rightarrow> voice_response
     \<Rightarrow> sidebar_state \<Rightarrow> sidebar_state" where
  "deliver loc sessionIdAtStart sessionNow m textToVoice response st =
     (if present (response_error response)
        then failed st (''API Error: '' @ (case response_error response of None \<Rightarrow> [] | Some e \<Rightarrow> e))
      else
        (case audio_url response of
           None \<Rightarrow> failed st ''No audio URL returned from API''
         | Some url \<Rightarrow>
             if url = [] then failed st ''No audio URL returned from API''
             else
               (let newVoiceExplanation =
                      \<lparr>ve_text = textToVoice,
                       ve_timings = chooseTimings response textToVoice,
                       ve_audioUrl = convertToBackendURL loc url\<rparr>
                in if sessionNow = Some sessionIdAtStart then
                     st\<lparr>voiceExplanation := Some newVoiceExplanation,
                        isLoading := False,
                        cachedExplanations :=
                          (case cacheKey m of
                             None \<Rightarrow> cachedExplanations st
                           | Some k \<Rightarrow>
                               if k = [] then cachedExplanations st
                               else (cachedExplanations st)(k \<mapsto> newVoiceExplanation))\<rparr>
                   else st\<lparr>isLoading := False\<rparr>)))"

text \<open>
  The synthesis, when no stored audio was found: the call, then the delivery of its answer
  or the \<open>catch\<close> of its rejection.
\<close>

definition generateNew ::
  "(string \<Rightarrow> string \<Rightarrow> string \<Rightarrow> api_result) \<Rightarrow> location \<Rightarrow> string \<Rightarrow> string option
     \<Rightarrow> ChatMessage \<Rightarrow> string \<Rightarrow> string \<Rightarrow> sidebar_state \<Rightarrow> api_call list
     \<Rightarrow> sidebar_state \<times> api_call list" where
  "generateNew generateVoice loc sessionId sessionNow m textToVoice queryId st calls =
     (case generateVoice textToVoice sessionId queryId of
        Rejected msg \<Rightarrow> (failed st msg, calls @ [GenerateVoice textToVoice sessionId queryId])
      | Resolved response \<Rightarrow>
          (deliver loc sessionId sessionNow m textToVoice response st,
           calls @ [GenerateVoice textToVoice sessionId queryId]))"

text \<open>
  \<open>generateVoiceExplanation\<close>. The two endpoints are functions of their arguments;
  \<open>fresh\<close> is the text of \<open>msg_${Date.now()}\<close>; \<open>session\<close> is the current
  session the component holds when the run starts and \<open>sessionNow\<close> the id of the store's current
  session when the answer has arrived. The result is the component's state after the run
  and the calls made, in order.
\<close>

definition generateVoiceExplanation ::
  "(string \<Rightarrow> string \<Rightarrow> voice_response option) \<Rightarrow> (string \<Rightarrow> string \<Rightarrow> string \<Rightarrow> api_result)
     \<Rightarrow> location \<Rightarrow> string \<Rightarrow> ChatSession option \<Rightarrow> string option \<Rightarrow> sidebar_state
     \<Rightarrow> sidebar_state \<times> api_call list" where
  "generateVoiceExplanation getAudioByQueryId generateVoice loc fresh session sessionNow st =
     (case session of
        None \<Rightarrow> (st\<lparr>errorMessage := Some ''No messages to explain''\<rparr>, [])
      | Some cur \<Rightarrow>
          if messages cur = [] then (st\<lparr>errorMessage := Some ''No messages to explain''\<rparr>, [])
          else
            (case lastAssistantMessage cur of
               None \<Rightarrow> (st\<lparr>errorMessage := Some ''No assistant messages to explain''\<rparr>, [])
             | Some m \<Rightarrow>
                 (case detailed_response m of
                    None \<Rightarrow>
                      (st\<lparr>errorMessage := Some ''Voice explanations are only available for detailed responses. Please toggle to detailed view first.'',
                          isLoading := False\<rparr>, [])
                  | Some textToVoice \<Rightarrow>
                      if textToVoice = [] then
                        (st\<lparr>errorMessage := Some ''Voice explanations are only available for detailed responses. Please toggle to detailed view first.'',
                            isLoading := False\<rparr>, [])
                      else
                        (let st1 = st\<lparr>isLoading := True, errorMessage := None\<rparr>;
                             queryId = (case orElse (orElse (query_id m) (Some (msg_id m))) (Some fresh) of
                                          None \<Rightarrow> [] | Some q \<Rightarrow> q);
                             sessionId = session_id cur
                         in case cachedFor st m of
                              Some v \<Rightarrow> (st1\<lparr>voiceExplanation := Some v, isLoading := False\<rparr>, [])
                            | None \<Rightarrow>
                                (let stored = (case query_id m of
                                                 None \<Rightarrow> None
                                               | Some q \<Rightarrow> if q = [] then None
                                                           else getAudioByQueryId q sessionId);
                                     calls1 = (case query_id m of
                                                 None \<Rightarrow> []
                                               | Some q \<Rightarrow> if q = [] then []
                                                           else [GetAudioByQueryId q sessionId])
                                 in case stored of
                                      Some response \<Rightarrow>
                                        if present (audio_url response)
                                        then (deliver loc sessionId sessionNow m textToVoice response st1,
                                              calls1)
                                        else generateNew generateVoice loc sessionId sessionNow m
                                               textToVoice queryId st1 calls1
                                    | None \<Rightarrow>
                                        generateNew generateVoice loc sessionId sessionNow m
                                          textToVoice queryId st1 calls1)))))"

section \<open>Example inputs\<close>

text \<open>
  A generated quiz of three questions whose answer indices are 1-based, too large and
  negative, the reply that carries it, and the quiz after the repair.
\<close>

definition quiz0 :: jsobj where
  "quiz0 = [(''topic'', JStr ''Photosynthesis''), (''difficulty'', JStr ''medium''),
            (''questions'', JArr [JStr ''Q1'', JStr ''Q2'', JStr ''Q3'']),
            (''options'', JArr [JArr [JStr ''a'', JStr ''b'', JStr ''c'', JStr ''d''],
                               JArr [JStr ''a'', JStr ''b'', JStr ''c'', JStr ''d''],
                               JArr [JStr ''a'', JStr ''b'', JStr ''c'', JStr ''d'']]),
            (''correct_answers'', JArr [JNum (Fin 4), JNum (Fin 7), JNum (Fin (- 2))]),
            (''explanations'', JArr [JStr ''E1'', JStr ''E2'', JStr ''E3''])]"

definition reply0 :: groq_reply where
  "reply0 = Content ''{...}'' (Some quiz0)"

definition fixed0 :: jsobj where
  "fixed0 = [(''topic'', JStr ''Photosynthesis''), (''difficulty'', JStr ''medium''),
            (''questions'', JArr [JStr ''Q1'', JStr ''Q2'', JStr ''Q3'']),
            (''options'', JArr [JArr [JStr ''a'', JStr ''b'', JStr ''c'', JStr ''d''],
                               JArr [JStr ''a'', JStr ''b'', JStr ''c'', JStr ''d''],
                               JArr [JStr ''a'', JStr ''b'', JStr ''c'', JStr ''d'']]),
            (''correct_answers'', JArr [JNum (Fin 3), JNum (Fin 3), JNum (Fin 0)]),
            (''explanations'', JArr [JStr ''E1'', JStr ''E2'', JStr ''E3''])]"

text \<open>A request whose question count is a text that is no number.\<close>

definition body_abc :: jsval where
  "body_abc = JObj [(''topic'', JStr ''Photosynthesis''), (''difficulty'', JStr ''medium''),
                    (''questionCount'', JStr ''abc'')]"

text \<open>A quiz of five questions, as the quiz page holds it.\<close>

definition quizData0 :: quiz_data where
  "quizData0 = \<lparr>qd_questions = [JStr ''Q1'', JStr ''Q2'', JStr ''Q3'', JStr ''Q4'', JStr ''Q5''],
                 qd_options = replicate 5 (JArr [JStr ''a'', JStr ''b'', JStr ''c'', JStr ''d'']),
                 qd_correct_answers = Some [JNum (Fin 0), JNum (Fin 2), JNum (Fin 0), JNum (Fin 3), JNum (Fin 1)],
                 qd_explanations = Some [JStr ''E1'', JStr ''E2'', JStr ''E3'', JStr ''E4'', JStr ''E5'']\<rparr>"

text \<open>
  The selections of a learner for the five questions: options 0 and 2, no answer, and
  option 3 twice.
\<close>

definition selected0 :: "nat option list" where
  "selected0 = [Some 0, Some 2, None, Some 3, Some 3]"

text \<open>A store whose current session holds one user message.\<close>

definition message0 :: ChatMessage where
  "message0 = \<lparr>msg_id = ''m1'', msg_type = User, content = ''What is photosynthesis?'',
               timestamp = Some 5000, audioUrl = None, sentiment = None, query_id = None,
               main_response = None, simplified_response = None, detailed_response = None,
               tinyllama_response = None, image_data = None\<rparr>"

definition session0 :: ChatSession where
  "session0 = \<lparr>session_id = ''s1'', title = ''New Chat'', messages = [message0], createdAt = Some 0\<rparr>"

definition state0 :: ChatState where
  "state0 = \<lparr>currentSession = Some session0, sessions = [session0], language = ''en'',
              isVoiceSidebarOpen = False, isImageSidebarOpen = False, isSidebarMinimized = False,
              currentPlayingAudio = None, isCreatingSession = False\<rparr>"

text \<open>The same text typed again 400 ms later, under a new id.\<close>

definition message1 :: ChatMessage where
  "message1 = message0\<lparr>msg_id := ''m2'', timestamp := Some 5400\<rparr>"

text \<open>An answer of the backend for a learner whose sentiment is negative.\<close>

definition answer0 :: askResponse where
  "answer0 = \<lparr>ar_query_id = Some ''q1'', ar_main_response = Some ''M'',
               ar_simplified_response = Some ''S'', ar_detailed_response = Some ''D'',
               ar_tinyllama_response = None, ar_sentiment_label = Some ''NEGATIVE'',
               ar_image_data = None\<rparr>"

text \<open>
  A session whose last assistant message has a detailed response, an empty sidebar, and
  backends: one that has no stored audio, one that has, two syntheses with different audio,
  and a synthesis whose timings overlap and start below 0.
\<close>

definition assistant0 :: ChatMessage where
  "assistant0 = \<lparr>msg_id = ''q1'', msg_type = Assistant, content = ''S'',
                  timestamp = Some 7000, audioUrl = None, sentiment = Some ''NEGATIVE'',
                  query_id = Some ''q1'', main_response = Some ''M'',
                  simplified_response = Some ''S'',
                  detailed_response = Some ''Plants make sugar. They need light.'',
                  tinyllama_response = None, image_data = None\<rparr>"

definition voiceSession0 :: ChatSession where
  "voiceSession0 = \<lparr>session_id = ''s1'', title = ''New Chat'', messages = [assistant0],
                     createdAt = Some 0\<rparr>"

definition sidebar0 :: sidebar_state where
  "sidebar0 = \<lparr>voiceExplanation = None, errorMessage = None, isLoading = False,
                cachedExplanations = (\<lambda>k. None)\<rparr>"

definition location0 :: location where
  "location0 = \<lparr>origin = ''http://localhost:3000'', port = ''3000''\<rparr>"

definition noStoredAudio :: "string \<Rightarrow> string \<Rightarrow> voice_response option" where
  "noStoredAudio q s = None"

definition synthesis0 :: "string \<Rightarrow> string \<Rightarrow> string \<Rightarrow> api_result" where
  "synthesis0 t s q = Resolved \<lparr>audio_url = Some ''/api/audio/q1.mp3'', response_error = None,
                                 tts_timings = None, timings = None\<rparr>"


definition overlapping0 :: "string \<Rightarrow> string \<Rightarrow> string \<Rightarrow> api_result" where
  "overlapping0 t s q =
     Resolved \<lparr>audio_url = Some ''/api/audio/q1.mp3'', response_error = None,
               tts_timings = Some [\<lparr>t_start = - 1, t_end = 5, t_text = ''Plants make sugar.''\<rparr>,
                                   \<lparr>t_start = 2, t_end = 3, t_text = ''They need light.''\<rparr>],
               timings = None\<rparr>"



text \<open>Answers of the voice endpoints: without timings, with \<open>tts_timings\<close>, and with \<open>timings\<close> only.\<close>

definition plainAnswer0 :: voice_response where
  "plainAnswer0 = \<lparr>audio_url = Some ''/api/audio/q1.mp3'', response_error = None,
                    tts_timings = None, timings = None\<rparr>"

definition timedAnswer0 :: voice_response where
  "timedAnswer0 = plainAnswer0\<lparr>tts_timings := Some [\<lparr>t_start = 0, t_end = 1, t_text = ''Plants make sugar.''\<rparr>,
                                                     \<lparr>t_start = 1, t_end = 2, t_text = ''They need light.''\<rparr>]\<rparr>"

definition storedTimings0 :: voice_response where
  "storedTimings0 = plainAnswer0\<lparr>tts_timings := Some [],
                                 timings := Some [\<lparr>t_start = 0, t_end = 1, t_text = ''Plants make sugar.''\<rparr>]\<rparr>"

section \<open>Properties of the quiz validation\<close>

lemma adjustAnswer_range:
  "\<exists>r. fst (adjustAnswer i c) = Fin r \<and> 0 \<le> r \<and> r \<le> 3"
  by (cases c) (auto simp: adjustAnswer_def xle_def)

lemma adjustAnswer_silent: "snd (adjustAnswer i c) = [] \<Longrightarrow> fst (adjustAnswer i c) = c"
  by (auto simp: adjustAnswer_def split: if_splits)

lemma adjustAnswer_final: "\<not> (xlt (fst (adjustAnswer i c)) (Fin 0) \<or> xlt (Fin 3) (fst (adjustAnswer i c)))"
  using adjustAnswer_range [of i c] by auto

lemma idx_JNum: "idx xs i = JNum c \<Longrightarrow> i < length xs \<and> xs ! i = JNum c"
  by (auto simp: idx_def split: if_splits)

lemma validateAnswers_step:
  assumes "i < n" "hasFourOptions (idx options i)" "idx cs i = JNum c"
  shows "validateAnswers i n options cs lg =
           validateAnswers (i + 1) n options (cs[i := JNum (fst (adjustAnswer i c))]) (lg @ snd (adjustAnswer i c))"
proof -
  have upd: "(if snd (adjustAnswer i c) = [] then cs else cs[i := JNum (fst (adjustAnswer i c))])
               = cs[i := JNum (fst (adjustAnswer i c))]"
    using adjustAnswer_silent [of i c] idx_JNum [OF assms(3)] list_update_id [of cs i] by auto
  show ?thesis
    using assms adjustAnswer_final [of i c] upd
    by (subst validateAnswers.simps) (simp add: case_prod_unfold Let_def)
qed

lemma validateAnswers_Inr:
  "validateAnswers i n options cs lg = (lg', Inr cs') \<Longrightarrow>
     length cs' = length cs \<and> set lg \<subseteq> set lg' \<and>
     (\<forall>j < i. idx cs' j = idx cs j) \<and>
     (\<forall>j. i \<le> j \<and> j < n \<longrightarrow>
        hasFourOptions (idx options j) \<and>
        (\<exists>c. idx cs j = JNum c \<and> idx cs' j = JNum (fst (adjustAnswer j c)) \<and>
              set (snd (adjustAnswer j c)) \<subseteq> set lg'))"
proof (induction i n options cs lg rule: validateAnswers.induct)
  case (1 i n options cs lg)
  show ?case
  proof (cases "i < n")
    case False
    with "1.prems" show ?thesis by (auto simp: validateAnswers.simps)
  next
    case True
    from "1.prems" True have four: "hasFourOptions (idx options i)"
      by (subst (asm) validateAnswers.simps) (simp split: if_splits)
    from "1.prems" True four obtain c where c: "idx cs i = JNum c"
      by (subst (asm) validateAnswers.simps) (auto split: jsval.splits)
    let ?c' = "fst (adjustAnswer i c)" and ?es = "snd (adjustAnswer i c)"
    let ?cs = "cs[i := JNum ?c']"
    have run: "validateAnswers (i + 1) n options ?cs (lg @ ?es) = (lg', Inr cs')"
      using validateAnswers_step [OF True four c] "1.prems" by simp
    have upd: "(if ?es = [] then cs else ?cs) = ?cs"
      using adjustAnswer_silent [of i c] idx_JNum [OF c] list_update_id [of cs i] by auto
    have IH: "length cs' = length ?cs \<and> set (lg @ ?es) \<subseteq> set lg' \<and>
       (\<forall>j < i + 1. idx cs' j = idx ?cs j) \<and>
       (\<forall>j. i + 1 \<le> j \<and> j < n \<longrightarrow>
          hasFourOptions (idx options j) \<and>
          (\<exists>c. idx ?cs j = JNum c \<and> idx cs' j = JNum (fst (adjustAnswer j c)) \<and>
                set (snd (adjustAnswer j c)) \<subseteq> set lg'))"
      using "1.IH" [OF True _ c, of "(?c', ?es)" ?c' ?es ?cs] four adjustAnswer_final [of i c] run upd
      by (simp add: prod_eq_iff)
    have ilen: "i < length cs" using idx_JNum [OF c] by simp
    have "idx cs' i = idx ?cs i" using IH by simp
    moreover have "idx ?cs i = JNum ?c'" using ilen by (simp add: idx_def)
    ultimately have at_i: "idx cs' i = JNum ?c'" by simp
    have before: "\<forall>j < i. idx cs' j = idx cs j"
    proof (intro allI impI)
      fix j assume j: "j < i"
      then have "idx cs' j = idx ?cs j" using IH by simp
      moreover have "idx ?cs j = idx cs j" using j by (simp add: idx_def)
      ultimately show "idx cs' j = idx cs j" by simp
    qed
    have after: "\<And>j. i + 1 \<le> j \<Longrightarrow> idx ?cs j = idx cs j"
      by (simp add: idx_def)
    show ?thesis
    proof (intro conjI allI impI)
      show "length cs' = length cs" using IH by simp
      show "set lg \<subseteq> set lg'" using IH by auto
      fix j assume "j < i" then show "idx cs' j = idx cs j" using before by simp
    next
      fix j assume j: "i \<le> j \<and> j < n"
      show "hasFourOptions (idx options j)"
        using j four IH by (cases "j = i") auto
    next
      fix j assume j: "i \<le> j \<and> j < n"
      show "\<exists>c. idx cs j = JNum c \<and> idx cs' j = JNum (fst (adjustAnswer j c)) \<and>
              set (snd (adjustAnswer j c)) \<subseteq> set lg'"
      proof (cases "j = i")
        case True
        then show ?thesis using c at_i IH by auto
      next
        case False
        then have ge: "i + 1 \<le> j" using j by simp
        then obtain ca where ca: "idx ?cs j = JNum ca"
            "idx cs' j = JNum (fst (adjustAnswer j ca))"
            "set (snd (adjustAnswer j ca)) \<subseteq> set lg'"
          using IH j by blast
        have "idx cs j = JNum ca" using after [OF ge] ca(1) by simp
        then show ?thesis using ca by blast
      qed
    qed
  qed
qed

lemma jnum_inj: "jnum a = jnum b \<Longrightarrow> a = b"
  by (simp add: jnum_def)

lemma getProp_update:
  "getProp (AList.update k v al) k' = (if k' = k then v else getProp al k')"
  by (simp add: getProp_def update_conv')

lemma arrayOfCount_Some:
  "arrayOfCount v qc = Some xs \<Longrightarrow> v = JArr xs \<and> qc = jnum (length xs)"
  by (auto simp: arrayOfCount_def split: jsval.splits if_splits)

lemma validateQuiz_Inr:
  assumes "validateQuiz quiz qc = (lg, Inr quiz')"
  shows "\<exists>qs os cs es cs' lg0.
           getProp quiz ''questions'' = JArr qs \<and> qc = jnum (length qs) \<and>
           getProp quiz ''options'' = JArr os \<and> length os = length qs \<and>
           getProp quiz ''correct_answers'' = JArr cs \<and> length cs = length qs \<and>
           getProp quiz ''explanations'' = JArr es \<and> length es = length qs \<and>
           validateAnswers 0 (length qs) os cs [] = (lg0, Inr cs') \<and>
           set lg0 \<subseteq> set lg \<and>
           quiz' = AList.update ''correct_answers'' (JArr cs') quiz"
proof -
  from assms obtain qs where qs: "arrayOfCount (getProp quiz ''questions'') qc = Some qs"
    by (auto simp: validateQuiz_def split: option.splits)
  from assms qs obtain os where os: "arrayOfCount (getProp quiz ''options'') qc = Some os"
    by (auto simp: validateQuiz_def split: option.splits)
  from assms qs os obtain cs where cs: "arrayOfCount (getProp quiz ''correct_answers'') qc = Some cs"
    by (auto simp: validateQuiz_def split: option.splits)
  from assms qs os cs obtain es where es: "arrayOfCount (getProp quiz ''explanations'') qc = Some es"
    by (auto simp: validateQuiz_def split: option.splits)
  from assms qs os cs es obtain lg0 cs' where
    run: "validateAnswers 0 (length qs) os cs [] = (lg0, Inr cs')" and
    lg: "lg = lg0 @ [Log ''API: Quiz validation and correction completed''
                   [(''questionsCount'', jnum (length qs)),
                    (''correctedAnswers'', JArr cs'),
                    (''topic'', getProp quiz ''topic''),
                    (''difficulty'', getProp quiz ''difficulty'')] None]" and
    q': "quiz' = AList.update ''correct_answers'' (JArr cs') quiz"
    by (auto simp: validateQuiz_def split: prod.splits sum.splits)
  note a = arrayOfCount_Some [OF qs] arrayOfCount_Some [OF os] arrayOfCount_Some [OF cs]
    arrayOfCount_Some [OF es]
  have "length os = length qs" "length cs = length qs" "length es = length qs"
    using a jnum_inj by metis+
  then show ?thesis using a run lg q' by auto
qed

lemma generateQuizWithGroq_Inr:
  assumes "generateQuizWithGroq key reply topic difficulty qc = (tr, Inr quiz')"
  shows "\<exists>s quiz lg. reply = Content s (Some quiz) \<and> validateQuiz quiz qc = (lg, Inr quiz') \<and>
           set lg \<subseteq> set tr"
  using assms
  by (auto simp: generateQuizWithGroq_def readReply_def Let_def
           split: if_splits groq_reply.splits option.splits prod.splits sum.splits)

lemma run0:
  "snd (generateQuizWithGroq (Some ''key'') reply0 ''Photosynthesis'' ''medium'' (jnum 3)) = Inr fixed0"
  by code_simp

text \<open>
  Claim C1. Whenever \<open>generateQuizWithGroq\<close> returns a quiz rather than throwing, the
  quiz has the arrays \<open>questions\<close>, \<open>options\<close>, \<open>correct_answers\<close> and
  \<open>explanations\<close>, each of exactly \<open>questionCount\<close> entries; every entry of
  \<open>options\<close> is an array of exactly 4 options; and every entry of
  \<open>correct_answers\<close> is a number between 0 and 3, whatever indices the generator
  produced.
\<close>

theorem generateQuizWithGroq_wellformed:
  assumes "generateQuizWithGroq GROQ_API_KEY reply topic difficulty questionCount = (tr, Inr quiz)"
  shows "\<exists>questions opts answers explanations.
           getProp quiz ''questions'' = JArr questions \<and>
           getProp quiz ''options'' = JArr opts \<and>
           getProp quiz ''correct_answers'' = JArr answers \<and>
           getProp quiz ''explanations'' = JArr explanations \<and>
           questionCount = jnum (length questions) \<and>
           length opts = length questions \<and>
           length answers = length questions \<and>
           length explanations = length questions \<and>
           (\<forall>row \<in> set opts. \<exists>os. row = JArr os \<and> length os = 4) \<and>
           (\<forall>a \<in> set answers. \<exists>r. a = JNum (Fin r) \<and> 0 \<le> r \<and> r \<le> 3)"
proof -
  from generateQuizWithGroq_Inr [OF assms] obtain s raw lg where
    "reply = Content s (Some raw)" and v: "validateQuiz raw questionCount = (lg, Inr quiz)"
    by blast
  from validateQuiz_Inr [OF v] obtain qs os cs es cs' lg0 where
    qs: "getProp raw ''questions'' = JArr qs" and qc: "questionCount = jnum (length qs)" and
    os: "getProp raw ''options'' = JArr os" and los: "length os = length qs" and
    cs: "getProp raw ''correct_answers'' = JArr cs" and lcs: "length cs = length qs" and
    es: "getProp raw ''explanations'' = JArr es" and les: "length es = length qs" and
    run: "validateAnswers 0 (length qs) os cs [] = (lg0, Inr cs')" and
    quiz: "quiz = AList.update ''correct_answers'' (JArr cs') raw"
    by blast
  note inv = validateAnswers_Inr [OF run]
  have lcs': "length cs' = length qs" using inv lcs by simp
  have rows: "\<forall>row \<in> set os. \<exists>xs. row = JArr xs \<and> length xs = 4"
  proof
    fix row assume "row \<in> set os"
    then obtain j where j: "j < length os" "os ! j = row" by (auto simp: in_set_conv_nth)
    then have "hasFourOptions (idx os j)" using inv los by simp
    then show "\<exists>xs. row = JArr xs \<and> length xs = 4"
      using j by (auto simp: idx_def hasFourOptions_def split: jsval.splits)
  qed
  have answers: "\<forall>a \<in> set cs'. \<exists>r. a = JNum (Fin r) \<and> 0 \<le> r \<and> r \<le> 3"
  proof
    fix a assume "a \<in> set cs'"
    then obtain j where j: "j < length cs'" "cs' ! j = a" by (auto simp: in_set_conv_nth)
    then obtain c where "idx cs' j = JNum (fst (adjustAnswer j c))"
      using inv lcs' by auto
    then have "a = JNum (fst (adjustAnswer j c))" using j by (simp add: idx_def)
    then show "\<exists>r. a = JNum (Fin r) \<and> 0 \<le> r \<and> r \<le> 3"
      using adjustAnswer_range [of j c] by auto
  qed
  show ?thesis
    using qs qc os los es les lcs' rows answers
    by (simp add: quiz getProp_update)
qed

theorem generateQuizWithGroq_wellformed_witness:
  "snd (generateQuizWithGroq (Some ''key'') reply0 ''Photosynthesis'' ''medium'' (jnum 3)) = Inr fixed0 \<and>
   (\<exists>questions opts answers explanations.
           getProp fixed0 ''questions'' = JArr questions \<and>
           getProp fixed0 ''options'' = JArr opts \<and>
           getProp fixed0 ''correct_answers'' = JArr answers \<and>
           getProp fixed0 ''explanations'' = JArr explanations \<and>
           jnum 3 = jnum (length questions) \<and>
           length opts = length questions \<and>
           length answers = length questions \<and>
           length explanations = length questions \<and>
           (\<forall>row \<in> set opts. \<exists>os. row = JArr os \<and> length os = 4) \<and>
           (\<forall>a \<in> set answers. \<exists>r. a = JNum (Fin r) \<and> 0 \<le> r \<and> r \<le> 3))"
proof -
  have run: "generateQuizWithGroq (Some ''key'') reply0 ''Photosynthesis'' ''medium'' (jnum 3)
               = (fst (generateQuizWithGroq (Some ''key'') reply0 ''Photosynthesis'' ''medium'' (jnum 3)),
                  Inr fixed0)"
    using run0 by (simp add: prod_eq_iff)
  show ?thesis
    using run0 generateQuizWithGroq_wellformed [OF run] by blast
qed

text \<open>
  Claim C2. In a quiz that \<open>generateQuizWithGroq\<close> returns, a numeric raw index
  \<open>c\<close> of question \<open>i + 1\<close> has become \<open>c - 1\<close> exactly when \<open>1 \<le> c \<le> 4\<close>,
  3 when \<open>c\<close> is above 4, 0 when \<open>c\<close> is negative, and is unchanged when it is 0;
  each of the three corrections has written its log entry, with the question's number, the
  original and the new index.
\<close>

theorem answer_index_normalization:
  assumes "generateQuizWithGroq GROQ_API_KEY (Content s (Some raw)) topic difficulty questionCount
             = (tr, Inr quiz)"
    and "getProp raw ''correct_answers'' = JArr cs"
    and "i < length cs"
    and "cs ! i = JNum c"
  shows "\<exists>answers a.
           getProp quiz ''correct_answers'' = JArr answers \<and> length answers = length cs \<and>
           answers ! i = JNum a \<and>
           ((a = xsub1 c) = (xle (Fin 1) c \<and> xle c (Fin 4))) \<and>
           (xle (Fin 1) c \<and> xle c (Fin 4) \<longrightarrow>
              Log ''API: Converting 1-based to 0-based index''
                [(''question'', jnum (i + 1)), (''originalIndex'', JNum c),
                 (''adjustedIndex'', JNum (xsub1 c))] None \<in> set tr) \<and>
           (xlt (Fin 4) c \<longrightarrow>
              a = Fin 3 \<and>
              Log ''API: Clamping out-of-bounds answer index''
                [(''question'', jnum (i + 1)), (''originalIndex'', JNum c),
                 (''clampedIndex'', JNum (Fin 3))] None \<in> set tr) \<and>
           (xlt c (Fin 0) \<longrightarrow>
              a = Fin 0 \<and>
              Log ''API: Clamping negative answer index''
                [(''question'', jnum (i + 1)), (''originalIndex'', JNum c),
                 (''clampedIndex'', JNum (Fin 0))] None \<in> set tr) \<and>
           (c = Fin 0 \<longrightarrow> a = Fin 0)"
proof -
  from generateQuizWithGroq_Inr [OF assms(1)] obtain lg where
    v: "validateQuiz raw questionCount = (lg, Inr quiz)" and lg: "set lg \<subseteq> set tr"
    by auto
  from validateQuiz_Inr [OF v] obtain qs os cs0 es cs' lg0 where
    "getProp raw ''questions'' = JArr qs" and "questionCount = jnum (length qs)" and
    "getProp raw ''options'' = JArr os" and "length os = length qs" and
    cs0: "getProp raw ''correct_answers'' = JArr cs0" and
    lcs0: "length cs0 = length qs" and
    "getProp raw ''explanations'' = JArr es" and "length es = length qs" and
    run0: "validateAnswers 0 (length qs) os cs0 [] = (lg0, Inr cs')" and
    lg0: "set lg0 \<subseteq> set lg" and
    quiz: "quiz = AList.update ''correct_answers'' (JArr cs') raw"
    by blast
  have "cs0 = cs" using cs0 assms(2) by simp
  then have lcs: "length cs = length qs" and
    run: "validateAnswers 0 (length qs) os cs [] = (lg0, Inr cs')"
    using lcs0 run0 by simp_all
  note inv = validateAnswers_Inr [OF run]
  have len: "length cs' = length cs" using inv by simp
  have "idx cs i = JNum c" using assms(3,4) by (simp add: idx_def)
  moreover obtain c0 where c0: "idx cs i = JNum c0"
      "idx cs' i = JNum (fst (adjustAnswer i c0))"
      "set (snd (adjustAnswer i c0)) \<subseteq> set lg0"
    using inv assms(3) lcs by auto
  ultimately have at: "cs' ! i = JNum (fst (adjustAnswer i c))"
    and logged: "set (snd (adjustAnswer i c)) \<subseteq> set tr"
    using assms(3) len lg lg0 by (auto simp: idx_def)
  have cases: "((fst (adjustAnswer i c) = xsub1 c) = (xle (Fin 1) c \<and> xle c (Fin 4)))"
    "xlt (Fin 4) c \<longrightarrow> fst (adjustAnswer i c) = Fin 3"
    "xlt c (Fin 0) \<longrightarrow> fst (adjustAnswer i c) = Fin 0"
    "c = Fin 0 \<longrightarrow> fst (adjustAnswer i c) = Fin 0"
    by (cases c; auto simp: adjustAnswer_def xle_def)+
  have logs: "xle (Fin 1) c \<and> xle c (Fin 4) \<longrightarrow>
              Log ''API: Converting 1-based to 0-based index''
                [(''question'', jnum (i + 1)), (''originalIndex'', JNum c),
                 (''adjustedIndex'', JNum (xsub1 c))] None \<in> set (snd (adjustAnswer i c))"
    "xlt (Fin 4) c \<longrightarrow>
              Log ''API: Clamping out-of-bounds answer index''
                [(''question'', jnum (i + 1)), (''originalIndex'', JNum c),
                 (''clampedIndex'', JNum (Fin 3))] None \<in> set (snd (adjustAnswer i c))"
    "xlt c (Fin 0) \<longrightarrow>
              Log ''API: Clamping negative answer index''
                [(''question'', jnum (i + 1)), (''originalIndex'', JNum c),
                 (''clampedIndex'', JNum (Fin 0))] None \<in> set (snd (adjustAnswer i c))"
    by (cases c; auto simp: adjustAnswer_def xle_def)+
  have "getProp quiz ''correct_answers'' = JArr cs'"
    by (simp add: quiz getProp_update)
  then show ?thesis
    using len at cases logs logged by blast
qed

theorem answer_index_normalization_witness:
  "getProp quiz0 ''correct_answers'' = JArr [JNum (Fin 4), JNum (Fin 7), JNum (Fin (- 2))] \<and>
   snd (generateQuizWithGroq (Some ''key'') (Content ''{...}'' (Some quiz0)) ''Photosynthesis''
          ''medium'' (jnum 3)) = Inr fixed0 \<and>
   (\<exists>answers. getProp fixed0 ''correct_answers'' = JArr answers \<and> length answers = 3 \<and>
      answers ! 0 = JNum (Fin 3) \<and>
      Log ''API: Converting 1-based to 0-based index''
        [(''question'', jnum 1), (''originalIndex'', JNum (Fin 4)),
         (''adjustedIndex'', JNum (Fin 3))] None
        \<in> set (fst (generateQuizWithGroq (Some ''key'') (Content ''{...}'' (Some quiz0))
                      ''Photosynthesis'' ''medium'' (jnum 3))))"
proof -
  let ?run = "generateQuizWithGroq (Some ''key'') (Content ''{...}'' (Some quiz0))
                ''Photosynthesis'' ''medium'' (jnum 3)"
  have r: "snd ?run = Inr fixed0" using run0 by (simp add: reply0_def)
  then have run: "?run = (fst ?run, Inr fixed0)" by (simp add: prod_eq_iff)
  have cs: "getProp quiz0 ''correct_answers'' = JArr [JNum (Fin 4), JNum (Fin 7), JNum (Fin (- 2))]"
    by (simp add: quiz0_def getProp_def)
  have "(0::nat) < length [JNum (Fin 4), JNum (Fin 7), JNum (Fin (- 2))]" by simp
  moreover have "[JNum (Fin 4), JNum (Fin 7), JNum (Fin (- 2))] ! 0 = JNum (Fin 4)" by simp
  ultimately show ?thesis
    using answer_index_normalization [OF run cs, of 0 "Fin 4"] r cs
    by (auto simp: xle_def)
qed

section \<open>Properties of the route handler\<close>

lemma Fetch_not_caught: "Fetch \<notin> set lg \<Longrightarrow> Fetch \<notin> set (fst (caught lg e))"
  by (simp add: caught_def)

lemma status_caught: "status (snd (caught lg e)) = 500"
  by (simp add: caught_def errorResponse_def)

lemma countCheck_number:
  "countCheck (JNum n) = (if xle (Fin 1) n \<and> xle n (Fin 15) then Pass else Reject)"
  by (cases n) (auto simp: countCheck_def truthy_def ToNumber_def xle_def)

lemma countCheck_missing: "countCheck JUndef = Reject" "countCheck JNull = Reject"
  by (simp_all add: countCheck_def truthy_def)

text \<open>
  The part of the validation that holds for every request: a request whose topic is missing
  or blank, whose difficulty is not one of the three levels, or whose question count the
  check does not let through, is answered with status 400 or 500 and the model is not
  called. The check lets a number through exactly when it lies between 1 and 15, and
  rejects a missing count.
\<close>

lemma POST_rejects_before_model:
  assumes "\<not> truthy (bodyField b ''topic'')
           \<or> (\<exists>t. bodyField b ''topic'' = JStr t \<and> trim t = [])
           \<or> knownDifficulty (bodyField b ''difficulty'') = None
           \<or> countCheck (bodyField b ''questionCount'') \<noteq> Pass"
  shows "Fetch \<notin> set (fst (POST GROQ_API_KEY reply (Some b))) \<and>
         status (snd (POST GROQ_API_KEY reply (Some b))) \<in> {400, 500}"
proof (cases "b = JNull")
  case True
  then show ?thesis by (simp add: POST_def caught_def errorResponse_def)
next
  case False
  let ?topic = "bodyField b ''topic''"
  let ?lg = "[Log ''API: Quiz generation request received''
                     [(''topic'', ?topic), (''difficulty'', bodyField b ''difficulty''),
                      (''questionCount'', bodyField b ''questionCount'')] None]"
  show ?thesis
  proof (cases "truthy ?topic")
    case nt: False
    with False show ?thesis
      by (cases b) (simp_all add: POST_def Let_def errorResponse_def)
  next
    case tt: True
    show ?thesis
    proof (cases "\<exists>t. ?topic = JStr t")
      case notstr: False
      with False tt show ?thesis
        by (cases b; cases ?topic) (simp_all add: POST_def Let_def caught_def errorResponse_def)
    next
      case True
      then obtain t where t: "?topic = JStr t" by blast
      show ?thesis
      proof (cases "trim t = []")
        case True
        with False tt t show ?thesis
          by (cases b) (simp_all add: POST_def Let_def errorResponse_def)
      next
        case nonblank: False
        from assms tt t nonblank have rest:
          "knownDifficulty (bodyField b ''difficulty'') = None
           \<or> countCheck (bodyField b ''questionCount'') \<noteq> Pass" by auto
        show ?thesis
        proof (cases "knownDifficulty (bodyField b ''difficulty'')")
          case None
          with False tt t nonblank show ?thesis
            by (cases b) (simp_all add: POST_def Let_def errorResponse_def)
        next
          case (Some d)
          with rest have "countCheck (bodyField b ''questionCount'') \<noteq> Pass" by simp
          with False tt t nonblank Some show ?thesis
            by (cases b; cases "countCheck (bodyField b ''questionCount'')")
               (simp_all add: POST_def Let_def caught_def errorResponse_def)
        qed
      qed
    qed
  qed
qed

text \<open>
  After the generation, a question whose entry of \<open>options\<close> is not an array of exactly
  4 options makes \<open>generateQuizWithGroq\<close> throw: nothing is repaired.
\<close>

lemma validateQuiz_rejects_wrong_option_count:
  assumes "getProp quiz ''options'' = JArr os" and "row \<in> set os" and "\<not> hasFourOptions row"
  shows "\<exists>e. snd (validateQuiz quiz questionCount) = Inl e"
proof (cases "snd (validateQuiz quiz questionCount)")
  case (Inl e)
  then show ?thesis by blast
next
  case (Inr quiz')
  then have v: "validateQuiz quiz questionCount = (fst (validateQuiz quiz questionCount), Inr quiz')"
    by (simp add: prod_eq_iff)
  from validateQuiz_Inr [OF v] obtain qs os' cs es cs' lg0 where
    "getProp quiz ''questions'' = JArr qs" and "questionCount = jnum (length qs)" and
    os': "getProp quiz ''options'' = JArr os'" and los: "length os' = length qs" and
    "getProp quiz ''correct_answers'' = JArr cs" and "length cs = length qs" and
    "getProp quiz ''explanations'' = JArr es" and "length es = length qs" and
    run: "validateAnswers 0 (length qs) os' cs [] = (lg0, Inr cs')" and
    "set lg0 \<subseteq> set (fst (validateQuiz quiz questionCount))" and
    "quiz' = AList.update ''correct_answers'' (JArr cs') quiz"
    by blast
  have "os' = os" using os' assms(1) by simp
  from assms(2) obtain j where j: "j < length os" "os ! j = row" by (auto simp: in_set_conv_nth)
  then have "hasFourOptions (idx os j)"
    using validateAnswers_Inr [OF run] los \<open>os' = os\<close> by simp
  then show ?thesis using j assms(3) by (simp add: idx_def)
qed

lemma generateQuizWithGroq_rejects_wrong_option_count:
  assumes "getProp quiz ''options'' = JArr os" and "row \<in> set os" and "\<not> hasFourOptions row"
  shows "\<exists>e. snd (generateQuizWithGroq GROQ_API_KEY (Content s (Some quiz)) topic difficulty questionCount) = Inl e"
proof (cases "snd (generateQuizWithGroq GROQ_API_KEY (Content s (Some quiz)) topic difficulty questionCount)")
  case (Inl e)
  then show ?thesis by blast
next
  case (Inr quiz')
  then have "generateQuizWithGroq GROQ_API_KEY (Content s (Some quiz)) topic difficulty questionCount
      = (fst (generateQuizWithGroq GROQ_API_KEY (Content s (Some quiz)) topic difficulty questionCount), Inr quiz')"
    by (simp add: prod_eq_iff)
  from generateQuizWithGroq_Inr [OF this] obtain lg where
    "validateQuiz quiz questionCount = (lg, Inr quiz')" by auto
  then have "snd (validateQuiz quiz questionCount) = Inr quiz'" by simp
  with validateQuiz_rejects_wrong_option_count [OF assms, of questionCount] show ?thesis by simp
qed

text \<open>
  Claim C7. The route is to fail, without calling the model, whenever the question count is
  not between 1 and 15. For the request \<open>body_abc\<close>, whose question count is the text
  \<open>abc\<close>, both comparisons of the check are comparisons with NaN and are false: the check
  lets the request through, the model is called, and only the validation of the generated quiz
  fails, with status 500.
\<close>

theorem POST_text_count_reaches_model:
  "countCheck (JStr ''abc'') = Pass \<and>
   Fetch \<in> set (fst (POST (Some ''key'') reply0 (Some body_abc))) \<and>
   status (snd (POST (Some ''key'') reply0 (Some body_abc))) = 500"
  by code_simp

section \<open>Properties of the quiz submission\<close>

lemma countCorrect_acc:
  "countCorrect index answers correct acc =
     acc + length (filter (\<lambda>(a, v). answerMatches a v)
                     (zip answers (map (idx correct) [index ..< index + length answers])))"
proof (induction answers arbitrary: index acc)
  case Nil
  show ?case by simp
next
  case (Cons a answers)
  have upt: "[index ..< index + length (a # answers)] = index # [index + 1 ..< index + 1 + length answers]"
    using upt_conv_Cons [of index "index + Suc (length answers)"] by (simp del: upt_Suc)
  show ?case
    unfolding countCorrect.simps Cons.IH upt by simp
qed

lemma countCorrect_card:
  "countCorrect 0 answers correct 0 =
     card {i. i < length answers \<and> answerMatches (answers ! i) (idx correct i)}"
proof -
  let ?zs = "zip answers (map (idx correct) [0 ..< 0 + length answers])"
  have "countCorrect 0 answers correct 0 = length (filter (\<lambda>(a, v). answerMatches a v) ?zs)"
    using countCorrect_acc [of 0 answers correct 0] by simp
  also have "\<dots> = card {i. i < length ?zs \<and> (\<lambda>(a, v). answerMatches a v) (?zs ! i)}"
    by (rule length_filter_conv_card)
  also have "{i. i < length ?zs \<and> (\<lambda>(a, v). answerMatches a v) (?zs ! i)}
               = {i. i < length answers \<and> answerMatches (answers ! i) (idx correct i)}"
    by auto
  finally show ?thesis .
qed

lemma digitOf_digit: "d < (10::nat) \<Longrightarrow> digitOf (char_of (48 + d)) = Some d"
  by (simp add: digitOf_def Let_def)

lemma isDigitIn_digit: "d < (10::nat) \<Longrightarrow> isDigitIn 10 (char_of (48 + d))"
  by (simp add: isDigitIn_def digitOf_digit)

lemma toStringIndex_nonempty: "toStringIndex n \<noteq> []"
  by (subst toStringIndex.simps) simp

lemma toStringIndex_digits: "list_all (isDigitIn 10) (toStringIndex n)"
proof (induction n rule: toStringIndex.induct)
  case (1 n)
  show ?case
  proof (cases "n < 10")
    case True
    then show ?thesis by (subst toStringIndex.simps) (simp add: isDigitIn_digit)
  next
    case False
    then show ?thesis
      using "1.IH" by (subst toStringIndex.simps) (simp add: isDigitIn_digit)
  qed
qed

lemma digitsValue_snoc:
  "digitsValue b (ds @ [c]) = b * digitsValue b ds + (case digitOf c of Some d \<Rightarrow> d | None \<Rightarrow> 0)"
  by (simp add: digitsValue_def)

lemma toStringIndex_value: "digitsValue 10 (toStringIndex n) = n"
proof (induction n rule: toStringIndex.induct)
  case (1 n)
  show ?case
  proof (cases "n < 10")
    case True
    then show ?thesis
      by (subst toStringIndex.simps) (simp add: digitsValue_def digitOf_digit)
  next
    case False
    then have "digitsValue 10 (toStringIndex (n div 10)) = n div 10" using "1.IH" by simp
    then show ?thesis
      using False by (subst toStringIndex.simps) (simp add: digitsValue_snoc digitOf_digit)
  qed
qed

lemma digit_plain:
  assumes "isDigitIn 10 c"
  shows "\<not> isWhiteSpace c \<and> c \<noteq> CHR ''+'' \<and> c \<noteq> CHR ''-'' \<and> c \<noteq> CHR ''x'' \<and> c \<noteq> CHR ''X''"
proof -
  have "48 \<le> (of_char c :: nat) \<and> (of_char c :: nat) \<le> 57"
    using assms by (auto simp: isDigitIn_def digitOf_def Let_def split: if_splits)
  then show ?thesis by (auto simp: isWhiteSpace_def)
qed

lemma parseInt_digits:
  assumes "ds \<noteq> []" and "list_all (isDigitIn 10) ds"
  shows "parseInt ds = Some (int (digitsValue 10 ds))"
proof -
  obtain c r where ds: "ds = c # r" using assms(1) by (cases ds) auto
  have c: "isDigitIn 10 c" using assms(2) ds by simp
  note p = digit_plain [OF c]
  show ?thesis
  proof (cases r)
    case Nil
    have t: "trimStart [c] = [c]" using p by (simp add: trimStart_def)
    show ?thesis
      using p c by (simp add: parseInt_def ds Nil t Let_def)
  next
    case (Cons c2 r2)
    then have "isDigitIn 10 c2" using assms(2) ds by simp
    from digit_plain [OF this] have x: "c2 \<noteq> CHR ''x''" "c2 \<noteq> CHR ''X''" by simp_all
    have t: "trimStart (c # c2 # r2) = c # c2 # r2" using p by (simp add: trimStart_def)
    have tw: "takeWhile (isDigitIn 10) (c # c2 # r2) = c # c2 # r2"
      using assms(2) ds Cons by (simp add: takeWhile_eq_all_conv list_all_iff)
    show ?thesis
      using p x by (simp add: parseInt_def ds Cons t Let_def tw del: takeWhile.simps)
  qed
qed

lemma parseInt_toStringIndex: "parseInt (toStringIndex n) = Some (int n)"
  using parseInt_digits [OF toStringIndex_nonempty toStringIndex_digits, of n]
  by (simp add: toStringIndex_value)

lemma parseInt_empty: "parseInt [] = None"
  by (simp add: parseInt_def trimStart_def Let_def)

lemma answerMatches_answerText:
  "answerMatches (answerText selected) v = (\<exists>k. selected = Some k \<and> v = JNum (Fin (of_nat k)))"
  by (cases selected)
     (simp_all add: answerMatches_def answerText_def parseInt_empty parseInt_toStringIndex)

text \<open>
  Claim C6. Let the submitted answers be the page's texts for the learner's selections, one
  for each question: the decimal text of the selected option's index, or the empty string
  where nothing was selected. For a quiz with at least one question, the count of correct
  answers is the number of questions whose selected index equals the correct index, and the
  score is that number divided by the number of questions, times 100; the row sent to the
  database carries the same score. Neither depends on anything but the selections and the
  correct indices. When option 0 is selected for each of five questions, the score is the
  number of questions whose correct index is 0, divided by 5, times 100.
\<close>

theorem quiz_scoring:
  assumes "handleSubmitQuiz sessionId (Some q) userAnswers quizCount difficulty random = Some (row, res)"
    and "qd_correct_answers q = Some correct"
    and "userAnswers = map answerText selected"
    and "length selected = length (qd_questions q)"
    and "0 < length (qd_questions q)"
  shows "res_correctAnswers res
           = card {i. i < length (qd_questions q) \<and>
                      (\<exists>k. selected ! i = Some k \<and> idx correct i = JNum (Fin (of_nat k)))} \<and>
         res_score res
           = Some (Fin (of_nat (card {i. i < length (qd_questions q) \<and>
                                         (\<exists>k. selected ! i = Some k \<and>
                                              idx correct i = JNum (Fin (of_nat k)))})
                        / of_nat (length (qd_questions q)) * 100)) \<and>
         row_quiz_score row = res_score res \<and>
         (selected = replicate 5 (Some 0) \<longrightarrow>
            res_score res
              = Some (Fin (of_nat (card {i. i < 5 \<and> idx correct i = JNum (Fin 0)}) / 5 * 100)))"
proof -
  let ?n = "length (qd_questions q)"
  let ?hits = "{i. i < ?n \<and> (\<exists>k. selected ! i = Some k \<and> idx correct i = JNum (Fin (of_nat k)))}"
  from assms(1,2) have
    cnt: "res_correctAnswers res = countCorrect 0 userAnswers correct 0" and
    sc: "res_score res = quizScore (countCorrect 0 userAnswers correct 0) ?n" and
    rw: "row_quiz_score row = res_score res"
    by (auto simp: handleSubmitQuiz_def Let_def split: option.splits if_splits)
  have len: "length userAnswers = ?n" using assms(3,4) by simp
  have "{i. i < length userAnswers \<and> answerMatches (userAnswers ! i) (idx correct i)} = ?hits"
    using assms(3,4) by (auto simp: answerMatches_answerText)
  then have k: "countCorrect 0 userAnswers correct 0 = card ?hits"
    using countCorrect_card [of userAnswers correct] by simp
  have score: "res_score res = Some (Fin (of_nat (card ?hits) / of_nat ?n * 100))"
    using sc k assms(5) by (simp add: quizScore_def)
  have zeros: "selected = replicate 5 (Some 0) \<longrightarrow>
      res_score res = Some (Fin (of_nat (card {i. i < 5 \<and> idx correct i = JNum (Fin 0)}) / 5 * 100))"
  proof
    assume u: "selected = replicate 5 (Some 0)"
    then have n: "?n = 5" using assms(4) by simp
    have "?hits = {i. i < 5 \<and> idx correct i = JNum (Fin 0)}"
      using u n by auto
    then show "res_score res = Some (Fin (of_nat (card {i. i < 5 \<and> idx correct i = JNum (Fin 0)}) / 5 * 100))"
      using score n by simp
  qed
  show ?thesis using cnt k score rw zeros by simp
qed


lemma submitted:
  "handleSubmitQuiz (Some ''s1'') (Some quizData0) answers 0 ''medium'' (1 / 2)
     = Some (the (handleSubmitQuiz (Some ''s1'') (Some quizData0) answers 0 ''medium'' (1 / 2)))"
  by (simp add: handleSubmitQuiz_def Let_def)

theorem quiz_scoring_witness:
  "map answerText selected0 = [''0'', ''2'', [], ''3'', ''3''] \<and>
   qd_correct_answers quizData0
     = Some [JNum (Fin 0), JNum (Fin 2), JNum (Fin 0), JNum (Fin 3), JNum (Fin 1)] \<and>
   res_correctAnswers (snd (the (handleSubmitQuiz (Some ''s1'') (Some quizData0)
                                   (map answerText selected0) 0 ''medium'' (1 / 2)))) = 3 \<and>
   res_score (snd (the (handleSubmitQuiz (Some ''s1'') (Some quizData0)
                          (map answerText selected0) 0 ''medium'' (1 / 2)))) = Some (Fin 60) \<and>
   card {i. i < length (qd_questions quizData0) \<and>
            (\<exists>k. selected0 ! i = Some k \<and>
                 idx [JNum (Fin 0), JNum (Fin 2), JNum (Fin 0), JNum (Fin 3), JNum (Fin 1)] i
                   = JNum (Fin (of_nat k)))} = 3 \<and>
   res_score (snd (the (handleSubmitQuiz (Some ''s1'') (Some quizData0)
                          (map answerText (replicate 5 (Some 0))) 0 ''medium'' (1 / 2))))
     = Some (Fin (of_nat (card {i. i < 5 \<and>
                idx [JNum (Fin 0), JNum (Fin 2), JNum (Fin 0), JNum (Fin 3), JNum (Fin 1)] i
                  = JNum (Fin 0)}) / 5 * 100)) \<and>
   res_score (snd (the (handleSubmitQuiz (Some ''s1'') (Some quizData0)
                          (map answerText (replicate 5 (Some 0))) 0 ''medium'' (1 / 2))))
     = Some (Fin 40)"
proof -
  let ?correct = "[JNum (Fin 0), JNum (Fin 2), JNum (Fin 0), JNum (Fin 3), JNum (Fin 1)]"
  let ?mixed = "the (handleSubmitQuiz (Some ''s1'') (Some quizData0) (map answerText selected0) 0
                       ''medium'' (1 / 2))"
  let ?zeros = "the (handleSubmitQuiz (Some ''s1'') (Some quizData0)
                       (map answerText (replicate 5 (Some 0))) 0 ''medium'' (1 / 2))"
  have enc: "map answerText selected0 = [''0'', ''2'', [], ''3'', ''3'']" by code_simp
  have c: "qd_correct_answers quizData0 = Some ?correct" by (simp add: quizData0_def)
  have p: "0 < length (qd_questions quizData0)" by (simp add: quizData0_def)
  have l1: "length selected0 = length (qd_questions quizData0)"
    by (simp add: quizData0_def selected0_def)
  have l2: "length (replicate 5 (Some (0::nat))) = length (qd_questions quizData0)"
    by (simp add: quizData0_def)
  have run1: "handleSubmitQuiz (Some ''s1'') (Some quizData0) (map answerText selected0) 0 ''medium'' (1 / 2)
                = Some (fst ?mixed, snd ?mixed)"
    using submitted [of "map answerText selected0"] by simp
  have run2: "handleSubmitQuiz (Some ''s1'') (Some quizData0) (map answerText (replicate 5 (Some 0))) 0
                ''medium'' (1 / 2) = Some (fst ?zeros, snd ?zeros)"
    using submitted [of "map answerText (replicate 5 (Some 0))"] by simp
  have cnt: "res_correctAnswers (snd ?mixed) = 3" by code_simp
  have sc: "res_score (snd ?mixed) = Some (Fin 60)" by code_simp
  have sz: "res_score (snd ?zeros) = Some (Fin 40)" by code_simp
  note T = quiz_scoring [OF run1 c refl l1 p]
  have k: "card {i. i < length (qd_questions quizData0) \<and>
            (\<exists>k. selected0 ! i = Some k \<and> idx ?correct i = JNum (Fin (of_nat k)))} = 3"
    using T [THEN conjunct1] cnt by simp
  note U = quiz_scoring [OF run2 c refl l2 p]
  have z: "res_score (snd ?zeros)
        = Some (Fin (of_nat (card {i. i < 5 \<and> idx ?correct i = JNum (Fin 0)}) / 5 * 100))"
    by (rule U [THEN conjunct2, THEN conjunct2, THEN conjunct2, THEN mp]) (rule refl)
  show ?thesis
    by (intro conjI) (rule enc, rule c, rule cnt, rule sc, rule k, rule z, rule sz)
qed




section \<open>Properties of the chat store\<close>

lemma addMessage_duplicate:
  assumes "currentSession st = Some cur" and "msg \<in> set (messages cur)"
    and "isDuplicateOf message msg"
  shows "addMessage message st = (st, False)"
  using assms by (auto simp: addMessage_def list_ex_iff)

lemma isDuplicateOf_self: "isDuplicateOf message message"
  by (simp add: isDuplicateOf_def)

lemma addMessage_twice:
  "fst (addMessage message (fst (addMessage message st))) = fst (addMessage message st)"
proof (cases "currentSession st")
  case None
  then show ?thesis by (simp add: addMessage_def)
next
  case (Some cur)
  show ?thesis
  proof (cases "list_ex (isDuplicateOf message) (messages cur)")
    case True
    with Some show ?thesis by (simp add: addMessage_def)
  next
    case False
    let ?upd = "cur\<lparr>messages := messages cur @ [message]\<rparr>"
    let ?st' = "st\<lparr>currentSession := Some ?upd,
                    sessions := map (\<lambda>s. if session_id s = session_id cur then ?upd else s) (sessions st)\<rparr>"
    have first: "fst (addMessage message st) = ?st'"
      using Some False by (simp add: addMessage_def Let_def)
    have "currentSession ?st' = Some ?upd" by simp
    moreover have "message \<in> set (messages ?upd)" by simp
    ultimately have "addMessage message ?st' = (?st', False)"
      using isDuplicateOf_self by (rule addMessage_duplicate)
    then show ?thesis using first by simp
  qed
qed

text \<open>
  Claim C10. When the current session already holds a message with the id of the new message,
  or one with its content and type whose time stamp is less than 1000 ms from the new
  message's, \<open>addMessage\<close> leaves the store as it is and starts no exchange with the
  backend. Adding the same message twice gives the state that adding it once gives.
\<close>

theorem addMessage_idempotent:
  "(\<forall>cur msg. currentSession st = Some cur \<and> msg \<in> set (messages cur) \<and>
       (msg_id msg = msg_id message \<or>
        (content msg = content message \<and> msg_type msg = msg_type message \<and>
         (\<exists>x y. timestamp msg = Some x \<and> timestamp message = Some y \<and> \<bar>x - y\<bar> < 1000)))
       \<longrightarrow> addMessage message st = (st, False)) \<and>
   fst (addMessage message (fst (addMessage message st))) = fst (addMessage message st)"
proof (intro conjI allI impI)
  fix cur msg
  assume a: "currentSession st = Some cur \<and> msg \<in> set (messages cur) \<and>
       (msg_id msg = msg_id message \<or>
        (content msg = content message \<and> msg_type msg = msg_type message \<and>
         (\<exists>x y. timestamp msg = Some x \<and> timestamp message = Some y \<and> \<bar>x - y\<bar> < 1000)))"
  then have "isDuplicateOf message msg"
    by (auto simp: isDuplicateOf_def within1000_def)
  with a show "addMessage message st = (st, False)"
    using addMessage_duplicate by blast
next
  show "fst (addMessage message (fst (addMessage message st))) = fst (addMessage message st)"
    by (rule addMessage_twice)
qed

theorem addMessage_idempotent_witness:
  "currentSession state0 = Some session0 \<and> message0 \<in> set (messages session0) \<and>
   content message0 = content message1 \<and> msg_type message0 = msg_type message1 \<and>
   timestamp message0 = Some 5000 \<and> timestamp message1 = Some 5400 \<and> \<bar>5000 - 5400 :: int\<bar> < 1000 \<and>
   msg_id message0 \<noteq> msg_id message1 \<and>
   addMessage message1 state0 = (state0, False) \<and>
   fst (addMessage message1 (fst (addMessage message1 state0))) = fst (addMessage message1 state0)"
proof -
  have h: "currentSession state0 = Some session0 \<and> message0 \<in> set (messages session0) \<and>
       (msg_id message0 = msg_id message1 \<or>
        (content message0 = content message1 \<and> msg_type message0 = msg_type message1 \<and>
         (\<exists>x y. timestamp message0 = Some x \<and> timestamp message1 = Some y \<and> \<bar>x - y\<bar> < 1000)))"
    by (simp add: state0_def session0_def message1_def message0_def)
  note T = addMessage_idempotent [of state0 message1]
  have dup: "addMessage message1 state0 = (state0, False)"
    using T h by blast
  have twice: "fst (addMessage message1 (fst (addMessage message1 state0))) = fst (addMessage message1 state0)"
    using T by blast
  show ?thesis
    using dup twice by (simp add: state0_def session0_def message1_def message0_def)
qed

text \<open>Exactly one second apart the message is not taken for a duplicate.\<close>

lemma addMessage_one_second_apart:
  "fst (addMessage (message0\<lparr>msg_id := ''m2'', timestamp := Some 6000\<rparr>) state0) \<noteq> state0"
  by (simp add: addMessage_def state0_def session0_def message0_def isDuplicateOf_def within1000_def Let_def)

text \<open>
  Claim C4 states that for a negative affect the simplified tier is the tier displayed first.
  For the answer \<open>answer0\<close>, whose sentiment is negative and whose three tiers differ, the
  message is rendered with its main tier.
\<close>

theorem default_tier_counterexample:
  "ar_sentiment_label answer0 = Some ''NEGATIVE'' \<and>
   simplified_response (assistantMessage answer0 ''u1'' 7000) = Some ''S'' \<and>
   contentToRender (assistantMessage answer0 ''u1'' 7000) False = ''M''"
  by code_simp

text \<open>
  Claim C4, as amended. The tier displayed first does not depend on the affect: the rendering
  of the assistant's message, with the toggle in its initial state, is the same for every
  sentiment label, and it is the cleaned main response whenever that is not empty. The three
  tiers that the backend returned are kept on the message, each cleaned.
\<close>

theorem default_tier_ignores_affect:
  assumes "ar_main_response r = Some main" and "main \<noteq> []"
  shows "contentToRender (assistantMessage (r\<lparr>ar_sentiment_label := label\<rparr>) uuid now) False
           = contentToRender (assistantMessage r uuid now) False \<and>
         (cleanMarkdown main \<noteq> [] \<longrightarrow>
            contentToRender (assistantMessage r uuid now) False = cleanMarkdown main) \<and>
         main_response (assistantMessage r uuid now) = Some (cleanMarkdown main) \<and>
         simplified_response (assistantMessage r uuid now)
           = (if present (ar_simplified_response r)
              then map_option cleanMarkdown (ar_simplified_response r) else None) \<and>
         detailed_response (assistantMessage r uuid now)
           = (if present (ar_detailed_response r)
              then map_option cleanMarkdown (ar_detailed_response r) else None)"
proof -
  have same: "contentToRender (assistantMessage (r\<lparr>ar_sentiment_label := label\<rparr>) uuid now) False
           = contentToRender (assistantMessage r uuid now) False"
    by (simp add: contentToRender_def hasDetailedResponse_def assistantMessage_def)
  have main: "main_response (assistantMessage r uuid now) = Some (cleanMarkdown main)"
    using assms by (simp add: assistantMessage_def)
  have shown: "cleanMarkdown main \<noteq> [] \<longrightarrow>
            contentToRender (assistantMessage r uuid now) False = cleanMarkdown main"
    using main by (simp add: contentToRender_def orElse_def present_def)
  have tiers: "simplified_response (assistantMessage r uuid now)
           = (if present (ar_simplified_response r)
              then map_option cleanMarkdown (ar_simplified_response r) else None)"
    "detailed_response (assistantMessage r uuid now)
           = (if present (ar_detailed_response r)
              then map_option cleanMarkdown (ar_detailed_response r) else None)"
    by (simp_all add: assistantMessage_def cleaned_def)
  show ?thesis using same main shown tiers by simp
qed

theorem default_tier_ignores_affect_witness:
  "ar_main_response answer0 = Some ''M'' \<and> ''M'' \<noteq> [] \<and> cleanMarkdown ''M'' = ''M'' \<and>
   contentToRender (assistantMessage (answer0\<lparr>ar_sentiment_label := Some ''POSITIVE''\<rparr>) ''u1'' 7000) False
     = contentToRender (assistantMessage answer0 ''u1'' 7000) False \<and>
   contentToRender (assistantMessage answer0 ''u1'' 7000) False = ''M'' \<and>
   main_response (assistantMessage answer0 ''u1'' 7000) = Some ''M'' \<and>
   simplified_response (assistantMessage answer0 ''u1'' 7000) = Some ''S'' \<and>
   detailed_response (assistantMessage answer0 ''u1'' 7000) = Some ''D''"
proof -
  have m: "ar_main_response answer0 = Some ''M''" by (simp add: answer0_def)
  have n: "''M'' \<noteq> []" by simp
  have c: "cleanMarkdown ''M'' = ''M''" "cleanMarkdown ''S'' = ''S''" "cleanMarkdown ''D'' = ''D''"
    by code_simp+
  have p: "present (ar_simplified_response answer0)" "present (ar_detailed_response answer0)"
    "ar_simplified_response answer0 = Some ''S''" "ar_detailed_response answer0 = Some ''D''"
    by (simp_all add: answer0_def present_def)
  show ?thesis
    using default_tier_ignores_affect [OF m n, of "Some ''POSITIVE''" "''u1''" 7000] m c p
    by simp
qed

section \<open>Properties of the voice sidebar\<close>

lemma lastAssistantMessage_nonempty: "lastAssistantMessage cur = Some m \<Longrightarrow> messages cur \<noteq> []"
  by (auto simp: lastAssistantMessage_def)


text \<open>The run when nothing is cached: the stored audio is looked up, then used or replaced.\<close>

lemma generateVoiceExplanation_uncached:
  assumes "lastAssistantMessage cur = Some m" and "detailed_response m = Some textToVoice"
    and "textToVoice \<noteq> []" and "cachedFor st m = None"
  shows "\<exists>response calls.
           generateVoiceExplanation ga gv loc fresh (Some cur) sessionNow st
             = (deliver loc (session_id cur) sessionNow m textToVoice response
                  (st\<lparr>isLoading := True, errorMessage := None\<rparr>), calls)
         \<or> (\<exists>msg calls.
           generateVoiceExplanation ga gv loc fresh (Some cur) sessionNow st
             = (failed (st\<lparr>isLoading := True, errorMessage := None\<rparr>) msg, calls))"
  using assms lastAssistantMessage_nonempty [OF assms(1)]
  by (auto simp: generateVoiceExplanation_def generateNew_def Let_def
           split: option.splits api_result.splits)


lemma deliver_stale:
  assumes "sessionNow \<noteq> Some sid"
  shows "voiceExplanation (deliver loc sid sessionNow m textToVoice response st) = voiceExplanation st \<and>
         cachedExplanations (deliver loc sid sessionNow m textToVoice response st) = cachedExplanations st"
  using assms
  by (auto simp: deliver_def failed_def Let_def split: if_splits option.splits)







text \<open>
  Claim C8 states that a generation completed after the session changed still populates the
  cache. Here the session is \<open>s2\<close> when the answer of the synthesis arrives for a run
  started in \<open>s1\<close>: the synthesis was called, and the cache holds nothing under the
  message's key.
\<close>

theorem stale_result_not_cached_counterexample:
  "snd (generateVoiceExplanation noStoredAudio synthesis0 location0 ''msg_1'' (Some voiceSession0)
          (Some ''s2'') sidebar0)
     = [GetAudioByQueryId ''q1'' ''s1'',
        GenerateVoice ''Plants make sugar. They need light.'' ''s1'' ''q1''] \<and>
   cacheKey assistant0 = Some ''q1'' \<and>
   cachedExplanations
     (fst (generateVoiceExplanation noStoredAudio synthesis0 location0 ''msg_1'' (Some voiceSession0)
             (Some ''s2'') sidebar0)) ''q1'' = None"
  by code_simp

text \<open>
  Claim C8, as amended. If the store's current session no longer has the id the run started
  with when the answer of a generation arrives, the result is discarded: the explanation shown
  and the cache are what they were before the run.
\<close>

theorem stale_result_discarded:
  assumes "lastAssistantMessage cur = Some m" and "cachedFor st m = None"
    and "sessionNow \<noteq> Some (session_id cur)"
  shows "voiceExplanation (fst (generateVoiceExplanation ga gv loc fresh (Some cur) sessionNow st))
           = voiceExplanation st \<and>
         cachedExplanations (fst (generateVoiceExplanation ga gv loc fresh (Some cur) sessionNow st))
           = cachedExplanations st"
proof (cases "\<exists>t. detailed_response m = Some t \<and> t \<noteq> []")
  case False
  then show ?thesis
    using assms(1) lastAssistantMessage_nonempty [OF assms(1)]
    by (auto simp: generateVoiceExplanation_def split: option.splits)
next
  case True
  then obtain t where d: "detailed_response m = Some t" and t: "t \<noteq> []" by blast
  let ?st = "st\<lparr>isLoading := True, errorMessage := None\<rparr>"
  from generateVoiceExplanation_uncached [OF assms(1) d t assms(2), of ga gv loc fresh sessionNow]
  consider response calls where
      "generateVoiceExplanation ga gv loc fresh (Some cur) sessionNow st
         = (deliver loc (session_id cur) sessionNow m t response ?st, calls)"
    | msg calls where
      "generateVoiceExplanation ga gv loc fresh (Some cur) sessionNow st = (failed ?st msg, calls)"
    by blast
  then show ?thesis
  proof cases
    case 1
    then show ?thesis
      using deliver_stale [OF assms(3), of loc m t response ?st] by simp
  next
    case 2
    then show ?thesis by (simp add: failed_def)
  qed
qed

theorem stale_result_discarded_witness:
  "lastAssistantMessage voiceSession0 = Some assistant0 \<and> cachedFor sidebar0 assistant0 = None \<and>
   Some ''s2'' \<noteq> Some (session_id voiceSession0) \<and>
   voiceExplanation (fst (generateVoiceExplanation noStoredAudio synthesis0 location0 ''msg_1''
                            (Some voiceSession0) (Some ''s2'') sidebar0)) = None \<and>
   cachedExplanations (fst (generateVoiceExplanation noStoredAudio synthesis0 location0 ''msg_1''
                              (Some voiceSession0) (Some ''s2'') sidebar0))
     = cachedExplanations sidebar0"
proof -
  have a: "lastAssistantMessage voiceSession0 = Some assistant0"
    by (simp add: lastAssistantMessage_def voiceSession0_def assistant0_def)
  have b: "cachedFor sidebar0 assistant0 = None"
    by (simp add: cachedFor_def sidebar0_def split: option.splits)
  have c: "Some ''s2'' \<noteq> Some (session_id voiceSession0)"
    by (simp add: voiceSession0_def)
  have n: "voiceExplanation sidebar0 = None" by (simp add: sidebar0_def)
  show ?thesis
    using stale_result_discarded [OF a b c, of noStoredAudio synthesis0 location0 "''msg_1''"] a b c n
    by simp
qed

lemma estimateTimings_start:
  "estimateTimings s xs \<noteq> [] \<Longrightarrow> t_start (estimateTimings s xs ! 0) = s"
  by (cases xs) (simp_all add: Let_def)

lemma estimateTimings_length: "length (estimateTimings s xs) = length xs"
  by (induction xs arbitrary: s) (simp_all add: Let_def)

lemma estimateTimings_contiguous:
  "i + 1 < length (estimateTimings s xs) \<Longrightarrow>
     t_end (estimateTimings s xs ! i) = t_start (estimateTimings s xs ! (i + 1))"
proof (induction xs arbitrary: s i)
  case Nil
  then show ?case by simp
next
  case (Cons x xs)
  let ?d = "of_nat (length x) * (5 / 100) :: rat"
  have unfold: "estimateTimings s (x # xs)
      = \<lparr>t_start = s, t_end = s + ?d, t_text = x\<rparr> # estimateTimings (s + ?d) xs"
    by (simp add: Let_def)
  show ?case
  proof (cases i)
    case 0
    then have "estimateTimings (s + ?d) xs \<noteq> []" using Cons.prems unfold by auto
    then show ?thesis using 0 unfold estimateTimings_start [of "s + ?d" xs] by simp
  next
    case (Suc j)
    then have "j + 1 < length (estimateTimings (s + ?d) xs)" using Cons.prems unfold by simp
    then show ?thesis using Suc unfold Cons.IH [of j "s + ?d"] by simp
  qed
qed

lemma estimateTimings_forward:
  "t \<in> set (estimateTimings s xs) \<Longrightarrow> t_start t \<le> t_end t"
  by (induction xs arbitrary: s) (auto simp: Let_def)

text \<open>
  Claim C9 states that every timing map returned starts at or after 0 and does not overlap.
  The timings of the backend's answer are taken as they are: here the map shown starts at -1
  and its first entry ends at 5, after the second has started at 2.
\<close>

theorem backend_timings_unchecked_counterexample:
  "map_option ve_timings
     (voiceExplanation (fst (generateVoiceExplanation noStoredAudio overlapping0 location0 ''msg_1''
                               (Some voiceSession0) (Some ''s1'') sidebar0)))
     = Some [\<lparr>t_start = - 1, t_end = 5, t_text = ''Plants make sugar.''\<rparr>,
             \<lparr>t_start = 2, t_end = 3, t_text = ''They need light.''\<rparr>]"
  by code_simp

text \<open>
  Claim C9, as amended. The timing map of an explanation is the backend's \<open>tts_timings\<close>
  when it has entries, else its \<open>timings\<close> when it has entries, both unchanged and
  unchecked; else it is the fallback of 50 ms for each character, whose first entry starts at
  0, whose entries each end exactly where the next one starts, and none of which ends before
  it starts.
\<close>

theorem timing_map_of_answer:
  "(tts_timings response = Some (t # ts) \<longrightarrow> chooseTimings response textToVoice = t # ts) \<and>
   ((tts_timings response = None \<or> tts_timings response = Some []) \<and> timings response = Some (t # ts)
      \<longrightarrow> chooseTimings response textToVoice = t # ts) \<and>
   ((tts_timings response = None \<or> tts_timings response = Some []) \<and>
    (timings response = None \<or> timings response = Some [])
      \<longrightarrow> chooseTimings response textToVoice = estimateTimings 0 (sentencesOf textToVoice) \<and>
          (chooseTimings response textToVoice \<noteq> []
             \<longrightarrow> t_start (chooseTimings response textToVoice ! 0) = 0) \<and>
          (\<forall>i. i + 1 < length (chooseTimings response textToVoice)
             \<longrightarrow> t_end (chooseTimings response textToVoice ! i)
                   = t_start (chooseTimings response textToVoice ! (i + 1))) \<and>
          (\<forall>e \<in> set (chooseTimings response textToVoice). t_start e \<le> t_end e))"
proof (intro conjI impI)
  assume "tts_timings response = Some (t # ts)"
  then show "chooseTimings response textToVoice = t # ts" by (simp add: chooseTimings_def)
next
  assume "(tts_timings response = None \<or> tts_timings response = Some []) \<and> timings response = Some (t # ts)"
  then show "chooseTimings response textToVoice = t # ts" by (auto simp: chooseTimings_def)
next
  assume a: "(tts_timings response = None \<or> tts_timings response = Some []) \<and>
    (timings response = None \<or> timings response = Some [])"
  then show fb: "chooseTimings response textToVoice = estimateTimings 0 (sentencesOf textToVoice)"
    by (auto simp: chooseTimings_def)
  show "chooseTimings response textToVoice \<noteq> [] \<Longrightarrow> t_start (chooseTimings response textToVoice ! 0) = 0"
    using fb estimateTimings_start by simp
  show "\<forall>i. i + 1 < length (chooseTimings response textToVoice)
             \<longrightarrow> t_end (chooseTimings response textToVoice ! i)
                   = t_start (chooseTimings response textToVoice ! (i + 1))"
    using fb estimateTimings_contiguous by simp
  show "\<forall>e \<in> set (chooseTimings response textToVoice). t_start e \<le> t_end e"
    using fb estimateTimings_forward by simp
qed

theorem timing_map_of_answer_witness:
  "chooseTimings timedAnswer0 ''Plants make sugar. They need light.''
     = [\<lparr>t_start = 0, t_end = 1, t_text = ''Plants make sugar.''\<rparr>,
        \<lparr>t_start = 1, t_end = 2, t_text = ''They need light.''\<rparr>] \<and>
   chooseTimings storedTimings0 ''Plants make sugar. They need light.''
     = [\<lparr>t_start = 0, t_end = 1, t_text = ''Plants make sugar.''\<rparr>] \<and>
   chooseTimings plainAnswer0 ''Plants make sugar. They need light.''
     = [\<lparr>t_start = 0, t_end = 9 / 10, t_text = ''Plants make sugar.''\<rparr>,
        \<lparr>t_start = 9 / 10, t_end = 17 / 10, t_text = ''They need light.''\<rparr>] \<and>
   t_start (chooseTimings plainAnswer0 ''Plants make sugar. They need light.'' ! 0) = 0 \<and>
   t_end (chooseTimings plainAnswer0 ''Plants make sugar. They need light.'' ! 0)
     = t_start (chooseTimings plainAnswer0 ''Plants make sugar. They need light.'' ! (0 + 1))"
proof -
  let ?text = "''Plants make sugar. They need light.''"
  have a: "tts_timings timedAnswer0 = Some [\<lparr>t_start = 0, t_end = 1, t_text = ''Plants make sugar.''\<rparr>,
                                            \<lparr>t_start = 1, t_end = 2, t_text = ''They need light.''\<rparr>]"
    by (simp add: timedAnswer0_def)
  have b: "(tts_timings storedTimings0 = None \<or> tts_timings storedTimings0 = Some []) \<and>
           timings storedTimings0 = Some [\<lparr>t_start = 0, t_end = 1, t_text = ''Plants make sugar.''\<rparr>]"
    by (simp add: storedTimings0_def)
  have c: "(tts_timings plainAnswer0 = None \<or> tts_timings plainAnswer0 = Some []) \<and>
           (timings plainAnswer0 = None \<or> timings plainAnswer0 = Some [])"
    by (simp add: plainAnswer0_def)
  have e: "estimateTimings 0 (sentencesOf ?text)
     = [\<lparr>t_start = 0, t_end = 9 / 10, t_text = ''Plants make sugar.''\<rparr>,
        \<lparr>t_start = 9 / 10, t_end = 17 / 10, t_text = ''They need light.''\<rparr>]"
    by code_simp
  have A: "chooseTimings timedAnswer0 ?text
     = [\<lparr>t_start = 0, t_end = 1, t_text = ''Plants make sugar.''\<rparr>,
        \<lparr>t_start = 1, t_end = 2, t_text = ''They need light.''\<rparr>]"
    using timing_map_of_answer [where response = timedAnswer0 and textToVoice = ?text, THEN conjunct1] a
    by simp
  have B: "chooseTimings storedTimings0 ?text
     = [\<lparr>t_start = 0, t_end = 1, t_text = ''Plants make sugar.''\<rparr>]"
    using timing_map_of_answer [where response = storedTimings0 and textToVoice = ?text,
        THEN conjunct2, THEN conjunct1] b
    by simp
  note C = timing_map_of_answer [where response = plainAnswer0 and textToVoice = ?text,
        THEN conjunct2, THEN conjunct2, THEN mp, OF c]
  have C1: "chooseTimings plainAnswer0 ?text = estimateTimings 0 (sentencesOf ?text)"
    using C by simp
  have C2: "t_start (chooseTimings plainAnswer0 ?text ! 0) = 0"
    using C C1 e by simp
  have C3: "t_end (chooseTimings plainAnswer0 ?text ! 0) = t_start (chooseTimings plainAnswer0 ?text ! (0 + 1))"
    using C C1 e by simp
  show ?thesis using A B C1 e C2 C3 by simp
qed

end
